theory Spec2Isabelle
  imports Main "HOL-Library.Word"
begin

section \<open>ReadoutApplication::generate\_modules\<close>

text \<open>
  A shallow embedding of \<^verbatim>\<open>src/ReadoutApplication.cpp\<close>: the method
  \<^verbatim>\<open>ReadoutApplication::generate_modules\<close>, which reads a readout application from
  the configuration database, creates the objects of its data link handlers, of the
  optional TP handler and of its data readers in that database, and returns the created
  modules.

  Pointers of the source are \<open>option\<close>s (\<open>None\<close> is \<^verbatim>\<open>nullptr\<close>). The
  configuration database is passed in and returned. A \<^verbatim>\<open>throw\<close> is an \<open>Inl\<close>
  that carries the error and the database as the source left it at that point, since
  nothing in the source rolls the created objects back.
\<close>

subsection \<open>Errors\<close>

text \<open>
  \<open>BadConf\<close> is the one issue the source throws. \<open>StoreError\<close> is the exception of
  the database when an object is created under a taken identifier.
  \<open>UndefinedBehaviour\<close> stands for the places where the source does something the C++
  language does not define: it reads through a null pointer, or it overflows an
  \<^verbatim>\<open>int\<close>. No exception is thrown there; the model stops with this value so that
  nothing is claimed about what follows.
\<close>

datatype error = BadConf string | StoreError string | UndefinedBehaviour string

subsection \<open>The configuration database\<close>

datatype attr_val = StrVal string | U32Val "32 word" | U16Val "16 word"

text \<open>
  An object of the database: the file it lives in, its class, its identifier, its
  attributes by name and its relationships by name. A relationship holds the
  identifiers of the objects it refers to.
\<close>

record ConfigObject =
  contained_in :: string
  class_name :: string
  UID :: string
  attributes :: "string \<rightharpoonup> attr_val"
  relations :: "string \<rightharpoonup> string list"

text \<open>The database is the list of its objects, in the order of their creation.\<close>

type_synonym Configuration = "ConfigObject list"

type_synonym 'a result = "(error \<times> Configuration) + 'a"

definition bind :: "'a result \<Rightarrow> ('a \<Rightarrow> 'b result) \<Rightarrow> 'b result" where
  "bind m f = (case m of Inl e \<Rightarrow> Inl e | Inr a \<Rightarrow> f a)"

definition uids :: "Configuration \<Rightarrow> string set" where
  "uids confdb = set (map UID confdb)"

text \<open>
  Modelled from the spec: the database library (oksdbinterfaces) is not part of the
  repository. The spec gives its interface as \<^verbatim>\<open>create(targetFile, className,
  uniqueId)\<close>, says that every record has a store-unique identifier string, and that the
  store rejects a create with a duplicate id by raising a store-level error that the
  generator does not catch. A created object has no attribute and no relationship set.
  The handle the source receives from \<^verbatim>\<open>create\<close> is the identifier.
\<close>

definition create :: "string \<Rightarrow> string \<Rightarrow> string \<Rightarrow> Configuration \<Rightarrow> Configuration result" where
  "create dbfile cls u confdb =
     (if u \<in> uids confdb then Inl (StoreError u, confdb)
      else Inr (confdb @ [\<lparr>contained_in = dbfile, class_name = cls, UID = u,
                           attributes = Map.empty, relations = Map.empty\<rparr>]))"

text \<open>
  Modelled from the spec: \<^verbatim>\<open>get(className, uniqueId)\<close> returns the object stored
  under the identifier. The source calls it only with the identifier of an object it has
  just created, so the model writes that identifier where the source writes
  \<^verbatim>\<open>confdb->get<T>(uid)\<close>.

  Modelled from the spec: \<^verbatim>\<open>setValue(handle, field, value)\<close>,
  \<^verbatim>\<open>setReference(handle, field, handle)\<close> and
  \<^verbatim>\<open>setReferenceList(handle, field, [handle])\<close> change the one field of the object
  of the handle. \<open>modify\<close> applies a change to the object of a handle.
\<close>

definition modify :: "string \<Rightarrow> (ConfigObject \<Rightarrow> ConfigObject) \<Rightarrow> Configuration \<Rightarrow> Configuration" where
  "modify h f confdb = map (\<lambda>obj. if UID obj = h then f obj else obj) confdb"

text \<open>
  The three calls as the source writes them: \<^verbatim>\<open>obj.set_by_val(name, v)\<close>,
  \<^verbatim>\<open>obj.set_obj(name, &o)\<close> and \<^verbatim>\<open>obj.set_objs(name, {&o, ...})\<close> on the
  handle \<open>h\<close>.
\<close>

definition set_by_val :: "string \<Rightarrow> string \<Rightarrow> attr_val \<Rightarrow> Configuration \<Rightarrow> Configuration" where
  "set_by_val h name v = modify h (\<lambda>obj. obj\<lparr>attributes := (attributes obj)(name \<mapsto> v)\<rparr>)"

definition set_obj :: "string \<Rightarrow> string \<Rightarrow> string \<Rightarrow> Configuration \<Rightarrow> Configuration" where
  "set_obj h name target = modify h (\<lambda>obj. obj\<lparr>relations := (relations obj)(name \<mapsto> [target])\<rparr>)"

definition set_objs :: "string \<Rightarrow> string \<Rightarrow> string list \<Rightarrow> Configuration \<Rightarrow> Configuration" where
  "set_objs h name targets = modify h (\<lambda>obj. obj\<lparr>relations := (relations obj)(name \<mapsto> targets)\<rparr>)"

subsection \<open>The objects the method reads\<close>

record QueueDescriptor =
  qd_data_type :: string
  qd_queue_type :: string
  qd_capacity :: "32 word"

record NetworkConnectionDescriptor =
  nd_uid_base :: string
  nd_data_type :: string
  nd_connection_type :: string
  nd_uri :: string
  nd_port :: "16 word"

record QueueConnectionRule =
  destination_class :: string
  qr_descriptor :: "QueueDescriptor option"

record NetworkConnectionRule =
  endpoint_class :: string
  nr_descriptor :: "NetworkConnectionDescriptor option"

text \<open>
  The three configurations are objects of the database; the source uses their
  \<^verbatim>\<open>config_object()\<close> as the target of a relationship, so the model keeps their
  identifier, and the class name \<^verbatim>\<open>get_template_for()\<close> returns.
\<close>

record LinkHandlerConf =
  lh_UID :: string
  lh_template_for :: string

record DataReaderConf =
  dr_UID :: string
  dr_template_for :: string

record TPHandlerConf =
  tp_UID :: string

text \<open>
  What a resource set contains: a stream with its identifier and \<^verbatim>\<open>src_id\<close>, a
  readout group with its identifier and what it contains, or an object of another
  class. The source ids are 32-bit unsigned values: the source stores them with
  \<^verbatim>\<open>set_by_val<uint32_t>\<close>.
\<close>

datatype Resource =
    DROStreamConf string "32 word"
  | ReadoutGroup string "Resource list"
  | OtherResource string

fun resource_UID :: "Resource \<Rightarrow> string" where
  "resource_UID (DROStreamConf u _) = u"
| "resource_UID (ReadoutGroup u _) = u"
| "resource_UID (OtherResource u) = u"

text \<open>
  \<^verbatim>\<open>res->disabled(*session)\<close> belongs to coredal. The session is taken as what it
  answers for the object of each identifier.
\<close>

type_synonym Session = "string \<Rightarrow> bool"

definition disabled :: "Resource \<Rightarrow> Session \<Rightarrow> bool" where
  "disabled res session = session (resource_UID res)"

record ReadoutApplication =
  app_UID :: string
  link_handler :: "LinkHandlerConf option"
  queue_rules :: "QueueConnectionRule list"
  network_rules :: "NetworkConnectionRule list"
  tp_handler :: "TPHandlerConf option"
  tp_src_id :: "32 word"
  data_reader :: "DataReaderConf option"
  contains :: "Resource list"

text \<open>
  The pointers \<^verbatim>\<open>confdb->get<T>(uid)\<close> that the source pushes on \<open>modules\<close>: the
  class \<open>T\<close> and the identifier.
\<close>

datatype DaqModule =
    is_TPHandler: TPHandler string
  | is_DLH: DLH string
  | is_DataReader: DataReader string

subsection \<open>Formatting\<close>

definition digit_char :: "nat \<Rightarrow> char" where
  "digit_char d = ''0123456789abcdef'' ! d"

text \<open>\<^verbatim>\<open>std::to_string\<close> of an unsigned value.\<close>

fun to_string :: "nat \<Rightarrow> string" where
  "to_string n = (if n < 10 then [digit_char n] else to_string (n div 10) @ [digit_char (n mod 10)])"

declare to_string.simps [simp del]

text \<open>The digits \<^verbatim>\<open>std::hex\<close> prints.\<close>

fun to_hex :: "nat \<Rightarrow> string" where
  "to_hex n = (if n < 16 then [digit_char n] else to_hex (n div 16) @ [digit_char (n mod 16)])"

declare to_hex.simps [simp del]

text \<open>
  \<^verbatim>\<open>uidStream.fill('0'); uidStream << std::hex << std::setw(8) << id\<close>: the digits,
  filled on the left up to the width 8.
\<close>

definition hex_setw8 :: "32 word \<Rightarrow> string" where
  "hex_setw8 id' = (let s = to_hex (unat id') in replicate (8 - length s) CHR ''0'' @ s)"

subsection \<open>The rules (lines 66 to 90)\<close>

text \<open>
  The two loops over the rules, with the two descriptors each of them assigns as the
  accumulator; both start as \<^verbatim>\<open>nullptr\<close>.
\<close>

fun process_queue_rules ::
  "string \<Rightarrow> QueueConnectionRule list \<Rightarrow> QueueDescriptor option \<times> QueueDescriptor option
     \<Rightarrow> QueueDescriptor option \<times> QueueDescriptor option" where
  "process_queue_rules dlhClass [] (dlhInputQDesc, tpInputQDesc) = (dlhInputQDesc, tpInputQDesc)"
| "process_queue_rules dlhClass (rule # rules) (dlhInputQDesc, tpInputQDesc) =
     (if destination_class rule = ''DLH'' \<or> destination_class rule = dlhClass
      then process_queue_rules dlhClass rules (qr_descriptor rule, tpInputQDesc)
      else if destination_class rule = ''TPHandler''
      then process_queue_rules dlhClass rules (dlhInputQDesc, qr_descriptor rule)
      else process_queue_rules dlhClass rules (dlhInputQDesc, tpInputQDesc))"

fun process_network_rules ::
  "string \<Rightarrow> NetworkConnectionRule list
     \<Rightarrow> NetworkConnectionDescriptor option \<times> NetworkConnectionDescriptor option
     \<Rightarrow> NetworkConnectionDescriptor option \<times> NetworkConnectionDescriptor option" where
  "process_network_rules dlhClass [] (dlhNetDesc, tpNetDesc) = (dlhNetDesc, tpNetDesc)"
| "process_network_rules dlhClass (rule # rules) (dlhNetDesc, tpNetDesc) =
     (if endpoint_class rule = ''DLH'' \<or> endpoint_class rule = dlhClass
      then process_network_rules dlhClass rules (nr_descriptor rule, tpNetDesc)
      else if endpoint_class rule = ''TPHandler''
      then process_network_rules dlhClass rules (dlhNetDesc, nr_descriptor rule)
      else process_network_rules dlhClass rules (dlhNetDesc, tpNetDesc))"

subsection \<open>The TP handler (lines 92 to 131)\<close>

text \<open>
  The result is the list \<open>modules\<close>, the handle \<open>tpQueueObj\<close> (\<open>None\<close> while it is
  the default-constructed \<^verbatim>\<open>ConfigObject\<close>) and the database.
\<close>

definition create_tp_handler ::
  "ReadoutApplication \<Rightarrow> string \<Rightarrow> QueueDescriptor option \<Rightarrow> NetworkConnectionDescriptor option
     \<Rightarrow> Configuration \<Rightarrow> (DaqModule list \<times> string option \<times> Configuration) result" where
  "create_tp_handler app dbfile tpInputQDesc tpNetDesc confdb =
     (case tp_handler app of
        None \<Rightarrow> Inr ([], None, confdb)
      | Some tpHandlerConf \<Rightarrow>
          (case tpNetDesc of
             None \<Rightarrow> Inl (BadConf ''No tpHandler network descriptor given'', confdb)
           | Some nd \<Rightarrow>
               (case tpInputQDesc of
                  None \<Rightarrow> Inl (BadConf ''No tpHandler input queue descriptor given'', confdb)
                | Some qd \<Rightarrow>
                    (let tpsrc = tp_src_id app in
                     if tpsrc = 0 then Inl (BadConf ''No TPHandler src_id given'', confdb)
                     else
                       (let tpQueueUid = ''inputToTPH-'' @ to_string (unat tpsrc) in
                        bind (create dbfile ''Queue'' tpQueueUid confdb) (\<lambda>confdb.
                        let tpQueueObj = tpQueueUid;
                            confdb = set_by_val tpQueueObj ''data_type'' (StrVal (qd_data_type qd)) confdb;
                            confdb = set_by_val tpQueueObj ''queue_type'' (StrVal (qd_queue_type qd)) confdb;
                            confdb = set_by_val tpQueueObj ''capacity'' (U32Val (qd_capacity qd)) confdb;
                            tpNetUid = ''ReqToTPH-'' @ to_string (unat tpsrc)
                        in
                        bind (create dbfile ''NetworkConnection'' tpNetUid confdb) (\<lambda>confdb.
                        let tpNetObj = tpNetUid;
                            confdb = set_by_val tpNetObj ''data_type'' (StrVal (nd_data_type nd)) confdb;
                            confdb = set_by_val tpNetObj ''connection_type'' (StrVal (nd_connection_type nd)) confdb;
                            confdb = set_by_val tpNetObj ''uri'' (StrVal (nd_uri nd)) confdb;
                            confdb = set_by_val tpNetObj ''port'' (U16Val (nd_port nd)) confdb;
                            tphConfObj = tp_UID tpHandlerConf;
                            tpUid = ''tphandler-'' @ to_string (unat tpsrc)
                        in
                        bind (create dbfile ''TPHandler'' tpUid confdb) (\<lambda>confdb.
                        let tpObj = tpUid;
                            confdb = set_by_val tpObj ''source_id'' (U32Val tpsrc) confdb;
                            confdb = set_obj tpObj ''handler_configuration'' tphConfObj confdb;
                            confdb = set_objs tpObj ''inputs'' [tpQueueObj, tpNetObj] confdb
                        in Inr ([TPHandler tpUid], Some tpQueueObj, confdb)))))))))"

subsection \<open>One data link handler (lines 163 to 203)\<close>

text \<open>
  \<^verbatim>\<open>rnum\<close> and \<^verbatim>\<open>port_offset\<close> are \<^verbatim>\<open>int\<close>s that start at 0 and are only
  incremented: they are naturals here, and an increment or a sum beyond \<open>INT_MAX\<close>,
  which C++ leaves undefined, is \<open>UndefinedBehaviour\<close>.
\<close>

definition INT_MAX :: nat where
  "INT_MAX = 2147483647"

text \<open>
  Lines 189 and 190: \<^verbatim>\<open>uint16_t port = dlhNetDesc->get_port(); port = port ?
  port+port_offset : port;\<close>. The sum is an \<^verbatim>\<open>int\<close>; the assignment keeps its low 16
  bits.
\<close>

definition assign_port :: "16 word \<Rightarrow> nat \<Rightarrow> 16 word" where
  "assign_port port port_offset = (if port \<noteq> 0 then word_of_nat (unat port + port_offset) else port)"

text \<open>The values that stay the same for every stream of a call.\<close>

record handler_env =
  env_dbfile :: string
  env_session :: Session
  dlhConf :: LinkHandlerConf
  dlhClass :: string
  dlhInputQDesc :: "QueueDescriptor option"
  dlhNetDesc :: "NetworkConnectionDescriptor option"
  tpHandlerConf :: "TPHandlerConf option"
  tpQueueObj :: "string option"

text \<open>
  The body of the inner loop for a stream that is not disabled, with source id \<open>id'\<close>.
  It returns the module it pushes on \<open>modules\<close>, the queue it pushes on
  \<open>outputQueues\<close>, the new \<open>port_offset\<close> and the database.
\<close>

definition create_dlh ::
  "handler_env \<Rightarrow> 32 word \<Rightarrow> nat \<Rightarrow> Configuration
     \<Rightarrow> (DaqModule \<times> string \<times> nat \<times> Configuration) result" where
  "create_dlh env id' port_offset confdb =
     (let uid = ''DLH-'' @ to_string (unat id') in
      bind (create (env_dbfile env) (dlhClass env) uid confdb) (\<lambda>confdb.
      let dlhObj = uid;
          confdb = set_by_val dlhObj ''source_id'' (U32Val id') confdb;
          confdb = set_obj dlhObj ''handler_configuration'' (lh_UID (dlhConf env)) confdb;
          confdb = (case tpHandlerConf env of
                      None \<Rightarrow> confdb
                    | Some _ \<Rightarrow> set_objs dlhObj ''outputs''
                                 (case tpQueueObj env of None \<Rightarrow> [] | Some q \<Rightarrow> [q]) confdb);
          queueUid = ''inputToDLH-'' @ to_string (unat id')
      in
      bind (create (env_dbfile env) ''Queue'' queueUid confdb) (\<lambda>confdb.
      case dlhInputQDesc env of
        None \<Rightarrow> Inl (UndefinedBehaviour ''dlhInputQDesc is a null pointer'', confdb)
      | Some qd \<Rightarrow>
          (let queueObj = queueUid;
               confdb = set_by_val queueObj ''data_type'' (StrVal (qd_data_type qd)) confdb;
               confdb = set_by_val queueObj ''queue_type'' (StrVal (qd_queue_type qd)) confdb;
               confdb = set_by_val queueObj ''capacity'' (U32Val (qd_capacity qd)) confdb
           in
           case dlhNetDesc env of
             None \<Rightarrow> Inl (UndefinedBehaviour ''dlhNetDesc is a null pointer'', confdb)
           | Some nd \<Rightarrow>
               (let netUid = nd_uid_base nd @ hex_setw8 id' in
                bind (create (env_dbfile env) ''NetworkConnection'' netUid confdb) (\<lambda>confdb.
                let netObj = netUid;
                    confdb = set_by_val netObj ''data_type'' (StrVal (nd_data_type nd)) confdb;
                    confdb = set_by_val netObj ''connection_type'' (StrVal (nd_connection_type nd)) confdb;
                    confdb = set_by_val netObj ''uri'' (StrVal (nd_uri nd)) confdb;
                    port = nd_port nd
                in
                if port \<noteq> 0 \<and> INT_MAX < unat port + port_offset
                then Inl (UndefinedBehaviour ''port+port_offset overflows int'', confdb)
                else
                  (let port = assign_port port port_offset;
                       confdb = set_by_val netObj ''port'' (U16Val port) confdb
                   in
                   if port_offset = INT_MAX
                   then Inl (UndefinedBehaviour ''port_offset++ overflows int'', confdb)
                   else
                     (let port_offset = port_offset + 1;
                          confdb = set_objs dlhObj ''inputs'' [queueUid, netUid] confdb
                      in Inr (DLH uid, queueUid, port_offset, confdb)))))))))"

subsection \<open>The streams of a group (lines 153 to 204)\<close>

fun stream_loop ::
  "handler_env \<Rightarrow> Resource list \<Rightarrow> nat \<Rightarrow> string list \<Rightarrow> DaqModule list \<Rightarrow> Configuration
     \<Rightarrow> (nat \<times> string list \<times> DaqModule list \<times> Configuration) result" where
  "stream_loop env [] port_offset outputQueues modules confdb =
     Inr (port_offset, outputQueues, modules, confdb)"
| "stream_loop env (res # rest) port_offset outputQueues modules confdb =
     (case res of
        DROStreamConf stream_uid id' \<Rightarrow>
          if disabled res (env_session env)
          then stream_loop env rest port_offset outputQueues modules confdb
          else
            bind (create_dlh env id' port_offset confdb) (\<lambda>(m, queue, port_offset, confdb).
            stream_loop env rest port_offset (outputQueues @ [queue]) (modules @ [m]) confdb)
      | _ \<Rightarrow> Inl (BadConf ''ReadoutGroup contains something other than DROStreamConf'', confdb))"

subsection \<open>The groups and their data readers (lines 139 to 220)\<close>

fun group_loop ::
  "handler_env \<Rightarrow> string \<Rightarrow> DataReaderConf \<Rightarrow> Resource list \<Rightarrow> nat \<Rightarrow> nat \<Rightarrow> DaqModule list
     \<Rightarrow> Configuration \<Rightarrow> (DaqModule list \<times> Configuration) result" where
  "group_loop env appUID rdrConf [] rnum port_offset modules confdb = Inr (modules, confdb)"
| "group_loop env appUID rdrConf (roGroup # rest) rnum port_offset modules confdb =
     (if disabled roGroup (env_session env)
      then group_loop env appUID rdrConf rest rnum port_offset modules confdb
      else
        (case roGroup of
           ReadoutGroup group_uid rset_contains \<Rightarrow>
             bind (stream_loop env rset_contains port_offset [] modules confdb)
               (\<lambda>(port_offset, outputQueues, modules, confdb).
             if rnum = INT_MAX
             then Inl (UndefinedBehaviour ''rnum++ overflows int'', confdb)
             else
               (let readerUid = ''datareader-'' @ appUID @ ''-'' @ to_string rnum;
                    rnum = rnum + 1;
                    readerClass = dr_template_for rdrConf
                in
                bind (create (env_dbfile env) readerClass readerUid confdb) (\<lambda>confdb.
                let readerObj = readerUid;
                    qObjs = outputQueues;
                    confdb = set_objs readerObj ''outputs'' qObjs confdb;
                    confdb = set_obj readerObj ''configuration'' (dr_UID rdrConf) confdb
                in
                group_loop env appUID rdrConf rest rnum port_offset
                  (modules @ [DataReader readerUid]) confdb)))
         | _ \<Rightarrow> Inl (BadConf ''ReadoutApplication contains something other than ReadoutGroup'',
                     confdb)))"

subsection \<open>generate\_modules (lines 55 to 223)\<close>

definition generate_modules ::
  "ReadoutApplication \<Rightarrow> Configuration \<Rightarrow> string \<Rightarrow> Session \<Rightarrow> (DaqModule list \<times> Configuration) result" where
  "generate_modules app confdb dbfile session =
     (case link_handler app of
        None \<Rightarrow> Inl (UndefinedBehaviour ''dlhConf is a null pointer'', confdb)
      | Some dlhConf' \<Rightarrow>
          (let dlhClass' = lh_template_for dlhConf';
               (dlhInputQDesc', tpInputQDesc) =
                  process_queue_rules dlhClass' (queue_rules app) (None, None);
               (dlhNetDesc', tpNetDesc) =
                  process_network_rules dlhClass' (network_rules app) (None, None)
           in
           bind (create_tp_handler app dbfile tpInputQDesc tpNetDesc confdb)
             (\<lambda>(modules, tpQueueObj', confdb).
           case data_reader app of
             None \<Rightarrow> Inl (BadConf ''No DataReader configuration given'', confdb)
           | Some rdrConf \<Rightarrow>
               group_loop
                 \<lparr>env_dbfile = dbfile, env_session = session, dlhConf = dlhConf',
                  dlhClass = dlhClass', dlhInputQDesc = dlhInputQDesc', dlhNetDesc = dlhNetDesc',
                  tpHandlerConf = tp_handler app, tpQueueObj = tpQueueObj'\<rparr>
                 (app_UID app) rdrConf (contains app) 0 0 modules confdb)))"

section \<open>What a run creates\<close>

text \<open>
  The definitions of this section describe the result of a call that returns: the
  objects it has added to the database and the modules it returns, as functions of the
  application. They are compared with \<open>generate_modules\<close> in the lemmas
  \<open>create_dlh_Inr\<close>, \<open>stream_loop_Inr\<close>, \<open>group_loop_Inr\<close>,
  \<open>create_tp_handler_Inr\<close> and \<open>generate_modules_Inr\<close> below.
\<close>

subsection \<open>The rule that wins\<close>

text \<open>
  The descriptor of the last rule of a list that matches, and \<open>None\<close> when no rule
  matches.
\<close>

definition last_matching_descriptor :: "('r \<Rightarrow> 'd option) \<Rightarrow> ('r \<Rightarrow> bool) \<Rightarrow> 'r list \<Rightarrow> 'd option" where
  "last_matching_descriptor descriptor matches rules =
     (if filter matches rules = [] then None else descriptor (last (filter matches rules)))"

subsection \<open>The objects of a stream\<close>

definition dlh_record :: "handler_env \<Rightarrow> NetworkConnectionDescriptor \<Rightarrow> 32 word \<Rightarrow> ConfigObject" where
  "dlh_record env nd s =
     \<lparr>contained_in = env_dbfile env, class_name = dlhClass env,
      UID = ''DLH-'' @ to_string (unat s),
      attributes = [''source_id'' \<mapsto> U32Val s],
      relations =
        (case tpHandlerConf env of
           None \<Rightarrow> [''handler_configuration'' \<mapsto> [lh_UID (dlhConf env)]]
         | Some _ \<Rightarrow> [''handler_configuration'' \<mapsto> [lh_UID (dlhConf env)],
                      ''outputs'' \<mapsto> (case tpQueueObj env of None \<Rightarrow> [] | Some q \<Rightarrow> [q])])
        (''inputs'' \<mapsto> [''inputToDLH-'' @ to_string (unat s), nd_uid_base nd @ hex_setw8 s])\<rparr>"

definition queue_record :: "handler_env \<Rightarrow> QueueDescriptor \<Rightarrow> 32 word \<Rightarrow> ConfigObject" where
  "queue_record env qd s =
     \<lparr>contained_in = env_dbfile env, class_name = ''Queue'',
      UID = ''inputToDLH-'' @ to_string (unat s),
      attributes = [''data_type'' \<mapsto> StrVal (qd_data_type qd),
                    ''queue_type'' \<mapsto> StrVal (qd_queue_type qd),
                    ''capacity'' \<mapsto> U32Val (qd_capacity qd)],
      relations = Map.empty\<rparr>"

definition network_record :: "handler_env \<Rightarrow> NetworkConnectionDescriptor \<Rightarrow> nat \<Rightarrow> 32 word \<Rightarrow> ConfigObject" where
  "network_record env nd port_offset s =
     \<lparr>contained_in = env_dbfile env, class_name = ''NetworkConnection'',
      UID = nd_uid_base nd @ hex_setw8 s,
      attributes = [''data_type'' \<mapsto> StrVal (nd_data_type nd),
                    ''connection_type'' \<mapsto> StrVal (nd_connection_type nd),
                    ''uri'' \<mapsto> StrVal (nd_uri nd),
                    ''port'' \<mapsto> U16Val (assign_port (nd_port nd) port_offset)],
      relations = Map.empty\<rparr>"

text \<open>
  The source ids of the streams of a group that are not disabled, in the order of the
  group.
\<close>

fun enabled_src_ids :: "Session \<Rightarrow> Resource list \<Rightarrow> 32 word list" where
  "enabled_src_ids session [] = []"
| "enabled_src_ids session (DROStreamConf u s # rest) =
     (if session u then enabled_src_ids session rest else s # enabled_src_ids session rest)"
| "enabled_src_ids session (_ # rest) = enabled_src_ids session rest"

text \<open>
  The groups of an application that are not disabled, in its order, each as the source
  ids of its enabled streams. A group with no enabled stream is the empty list.
\<close>

fun processed_groups :: "Session \<Rightarrow> Resource list \<Rightarrow> 32 word list list" where
  "processed_groups session [] = []"
| "processed_groups session (ReadoutGroup u rset_contains # rest) =
     (if session u then processed_groups session rest
      else enabled_src_ids session rset_contains # processed_groups session rest)"
| "processed_groups session (_ # rest) = processed_groups session rest"

fun stream_records_of ::
  "handler_env \<Rightarrow> QueueDescriptor \<Rightarrow> NetworkConnectionDescriptor \<Rightarrow> nat \<Rightarrow> 32 word list
     \<Rightarrow> ConfigObject list" where
  "stream_records_of env qd nd port_offset [] = []"
| "stream_records_of env qd nd port_offset (s # ids) =
     [dlh_record env nd s, queue_record env qd s, network_record env nd port_offset s]
       @ stream_records_of env qd nd (Suc port_offset) ids"

definition stream_records :: "handler_env \<Rightarrow> nat \<Rightarrow> 32 word list \<Rightarrow> ConfigObject list" where
  "stream_records env port_offset ids =
     (case dlhInputQDesc env of
        None \<Rightarrow> []
      | Some qd \<Rightarrow>
          (case dlhNetDesc env of
             None \<Rightarrow> []
           | Some nd \<Rightarrow> stream_records_of env qd nd port_offset ids))"

subsection \<open>The objects of a group\<close>

definition reader_record ::
  "handler_env \<Rightarrow> string \<Rightarrow> DataReaderConf \<Rightarrow> nat \<Rightarrow> 32 word list \<Rightarrow> ConfigObject" where
  "reader_record env appUID rdrConf rnum ids =
     \<lparr>contained_in = env_dbfile env, class_name = dr_template_for rdrConf,
      UID = ''datareader-'' @ appUID @ ''-'' @ to_string rnum,
      attributes = Map.empty,
      relations = [''outputs'' \<mapsto> map (\<lambda>s. ''inputToDLH-'' @ to_string (unat s)) ids,
                   ''configuration'' \<mapsto> [dr_UID rdrConf]]\<rparr>"

fun group_records ::
  "handler_env \<Rightarrow> string \<Rightarrow> DataReaderConf \<Rightarrow> nat \<Rightarrow> nat \<Rightarrow> 32 word list list
     \<Rightarrow> ConfigObject list" where
  "group_records env appUID rdrConf rnum port_offset [] = []"
| "group_records env appUID rdrConf rnum port_offset (ids # groups) =
     stream_records env port_offset ids @ [reader_record env appUID rdrConf rnum ids]
       @ group_records env appUID rdrConf (Suc rnum) (port_offset + length ids) groups"

fun group_modules :: "string \<Rightarrow> nat \<Rightarrow> 32 word list list \<Rightarrow> DaqModule list" where
  "group_modules appUID rnum [] = []"
| "group_modules appUID rnum (ids # groups) =
     map (\<lambda>s. DLH (''DLH-'' @ to_string (unat s))) ids
       @ [DataReader (''datareader-'' @ appUID @ ''-'' @ to_string rnum)]
       @ group_modules appUID (Suc rnum) groups"

subsection \<open>The objects of the TP handler\<close>

definition tp_queue_record :: "string \<Rightarrow> QueueDescriptor \<Rightarrow> 32 word \<Rightarrow> ConfigObject" where
  "tp_queue_record dbfile qd tpsrc =
     \<lparr>contained_in = dbfile, class_name = ''Queue'',
      UID = ''inputToTPH-'' @ to_string (unat tpsrc),
      attributes = [''data_type'' \<mapsto> StrVal (qd_data_type qd),
                    ''queue_type'' \<mapsto> StrVal (qd_queue_type qd),
                    ''capacity'' \<mapsto> U32Val (qd_capacity qd)],
      relations = Map.empty\<rparr>"

definition tp_network_record :: "string \<Rightarrow> NetworkConnectionDescriptor \<Rightarrow> 32 word \<Rightarrow> ConfigObject" where
  "tp_network_record dbfile nd tpsrc =
     \<lparr>contained_in = dbfile, class_name = ''NetworkConnection'',
      UID = ''ReqToTPH-'' @ to_string (unat tpsrc),
      attributes = [''data_type'' \<mapsto> StrVal (nd_data_type nd),
                    ''connection_type'' \<mapsto> StrVal (nd_connection_type nd),
                    ''uri'' \<mapsto> StrVal (nd_uri nd),
                    ''port'' \<mapsto> U16Val (nd_port nd)],
      relations = Map.empty\<rparr>"

definition tp_handler_record :: "string \<Rightarrow> TPHandlerConf \<Rightarrow> 32 word \<Rightarrow> ConfigObject" where
  "tp_handler_record dbfile conf tpsrc =
     \<lparr>contained_in = dbfile, class_name = ''TPHandler'',
      UID = ''tphandler-'' @ to_string (unat tpsrc),
      attributes = [''source_id'' \<mapsto> U32Val tpsrc],
      relations = [''handler_configuration'' \<mapsto> [tp_UID conf],
                   ''inputs'' \<mapsto> [''inputToTPH-'' @ to_string (unat tpsrc),
                                  ''ReqToTPH-'' @ to_string (unat tpsrc)]]\<rparr>"

definition tp_records ::
  "ReadoutApplication \<Rightarrow> string \<Rightarrow> QueueDescriptor option \<Rightarrow> NetworkConnectionDescriptor option
     \<Rightarrow> ConfigObject list" where
  "tp_records app dbfile tpInputQDesc tpNetDesc =
     (case tp_handler app of
        None \<Rightarrow> []
      | Some conf \<Rightarrow>
          (case tpNetDesc of
             None \<Rightarrow> []
           | Some nd \<Rightarrow>
               (case tpInputQDesc of
                  None \<Rightarrow> []
                | Some qd \<Rightarrow>
                    [tp_queue_record dbfile qd (tp_src_id app),
                     tp_network_record dbfile nd (tp_src_id app),
                     tp_handler_record dbfile conf (tp_src_id app)])))"

definition tp_modules :: "ReadoutApplication \<Rightarrow> DaqModule list" where
  "tp_modules app =
     (case tp_handler app of
        None \<Rightarrow> []
      | Some _ \<Rightarrow> [TPHandler (''tphandler-'' @ to_string (unat (tp_src_id app)))])"

definition tp_queue_handle :: "ReadoutApplication \<Rightarrow> string option" where
  "tp_queue_handle app =
     (case tp_handler app of
        None \<Rightarrow> None
      | Some _ \<Rightarrow> Some (''inputToTPH-'' @ to_string (unat (tp_src_id app))))"

subsection \<open>The objects and the modules of a call\<close>

text \<open>
  The descriptors the two loops over the rules leave for the data link handlers and for
  the TP handler, when the handler configuration is \<open>lh\<close>.
\<close>

definition dlh_queue_descriptor :: "ReadoutApplication \<Rightarrow> LinkHandlerConf \<Rightarrow> QueueDescriptor option" where
  "dlh_queue_descriptor app lh =
     fst (process_queue_rules (lh_template_for lh) (queue_rules app) (None, None))"

definition dlh_network_descriptor ::
  "ReadoutApplication \<Rightarrow> LinkHandlerConf \<Rightarrow> NetworkConnectionDescriptor option" where
  "dlh_network_descriptor app lh =
     fst (process_network_rules (lh_template_for lh) (network_rules app) (None, None))"

definition tp_queue_descriptor :: "ReadoutApplication \<Rightarrow> LinkHandlerConf \<Rightarrow> QueueDescriptor option" where
  "tp_queue_descriptor app lh =
     snd (process_queue_rules (lh_template_for lh) (queue_rules app) (None, None))"

definition tp_network_descriptor ::
  "ReadoutApplication \<Rightarrow> LinkHandlerConf \<Rightarrow> NetworkConnectionDescriptor option" where
  "tp_network_descriptor app lh =
     snd (process_network_rules (lh_template_for lh) (network_rules app) (None, None))"

definition run_env :: "ReadoutApplication \<Rightarrow> string \<Rightarrow> Session \<Rightarrow> LinkHandlerConf \<Rightarrow> handler_env" where
  "run_env app dbfile session lh =
     \<lparr>env_dbfile = dbfile, env_session = session, dlhConf = lh, dlhClass = lh_template_for lh,
      dlhInputQDesc = dlh_queue_descriptor app lh,
      dlhNetDesc = dlh_network_descriptor app lh,
      tpHandlerConf = tp_handler app, tpQueueObj = tp_queue_handle app\<rparr>"

definition run_records :: "ReadoutApplication \<Rightarrow> string \<Rightarrow> Session \<Rightarrow> ConfigObject list" where
  "run_records app dbfile session =
     (case link_handler app of
        None \<Rightarrow> []
      | Some lh \<Rightarrow>
          (case data_reader app of
             None \<Rightarrow> []
           | Some rdrConf \<Rightarrow>
               tp_records app dbfile (tp_queue_descriptor app lh) (tp_network_descriptor app lh)
               @ group_records (run_env app dbfile session lh) (app_UID app) rdrConf 0 0
                   (processed_groups session (contains app))))"

definition run_modules :: "ReadoutApplication \<Rightarrow> Session \<Rightarrow> DaqModule list" where
  "run_modules app session =
     tp_modules app @ group_modules (app_UID app) 0 (processed_groups session (contains app))"

text \<open>
  The objects \<open>new\<close> can be created one after the other in \<open>confdb\<close>: their
  identifiers differ from one another and from those of \<open>confdb\<close>.
\<close>

definition fresh_for :: "Configuration \<Rightarrow> ConfigObject list \<Rightarrow> bool" where
  "fresh_for confdb new = (distinct (map UID new) \<and> uids confdb \<inter> uids new = {})"

text \<open>The objects a call has added to the database \<open>confdb\<close> it started from.\<close>

definition created :: "Configuration \<Rightarrow> Configuration \<Rightarrow> ConfigObject list" where
  "created confdb confdb' = drop (length confdb) confdb'"

text \<open>
  What the objects and the modules of a call depend on: the file, the identifier of the
  application, its three configurations, the source id of the TP handler, the four
  descriptors the rules give, and the processed groups with their enabled source ids.
\<close>

definition run_inputs ::
  "ReadoutApplication \<Rightarrow> string \<Rightarrow> Session \<Rightarrow>
     string \<times> string \<times> LinkHandlerConf option \<times> DataReaderConf option \<times> TPHandlerConf option \<times> 32 word
       \<times> (QueueDescriptor option \<times> QueueDescriptor option)
       \<times> (NetworkConnectionDescriptor option \<times> NetworkConnectionDescriptor option)
       \<times> 32 word list list" where
  "run_inputs app dbfile session =
     (dbfile, app_UID app, link_handler app, data_reader app, tp_handler app, tp_src_id app,
      (case link_handler app of
         None \<Rightarrow> (None, None)
       | Some lh \<Rightarrow> process_queue_rules (lh_template_for lh) (queue_rules app) (None, None)),
      (case link_handler app of
         None \<Rightarrow> (None, None)
       | Some lh \<Rightarrow> process_network_rules (lh_template_for lh) (network_rules app) (None, None)),
      processed_groups session (contains app))"

text \<open>The identifiers in the database after a call that returns.\<close>

definition identifiers_after :: "(DaqModule list \<times> Configuration) result \<Rightarrow> string list" where
  "identifiers_after r = (case r of Inl _ \<Rightarrow> [] | Inr (mods, confdb') \<Rightarrow> map UID confdb')"

subsection \<open>Reading digits back\<close>

text \<open>
  The value of a digit is its place in \<^verbatim>\<open>0123456789abcdef\<close>, and the value of a
  string of digits in a base is read from the left.
\<close>

definition digit_value :: "char \<Rightarrow> nat" where
  "digit_value c = length (takeWhile (\<lambda>d. d \<noteq> c) ''0123456789abcdef'')"

definition digits_value :: "nat \<Rightarrow> string \<Rightarrow> nat" where
  "digits_value base s = foldl (\<lambda>acc c. acc * base + digit_value c) 0 s"

section \<open>Applications to run\<close>

text \<open>
  The concrete applications the statements of the last section are run on. The first is
  the scenario of the specification: a group with the stream 1 enabled and the stream 2
  disabled, no TP handler, the base port 14000 and the address template
  \<^verbatim>\<open>tp_conn_\<close>.
\<close>

definition example_qd :: QueueDescriptor where
  "example_qd = \<lparr>qd_data_type = ''WIBFrame'', qd_queue_type = ''kFollySPSCQueue'', qd_capacity = 100\<rparr>"

definition example_nd :: NetworkConnectionDescriptor where
  "example_nd = \<lparr>nd_uid_base = ''tp_conn_'', nd_data_type = ''DataRequest'',
     nd_connection_type = ''kSendRecv'', nd_uri = ''tcp://localhost'', nd_port = 14000\<rparr>"

definition example_lh :: LinkHandlerConf where
  "example_lh = \<lparr>lh_UID = ''def-link-handler'', lh_template_for = ''DLH''\<rparr>"

definition example_rdr :: DataReaderConf where
  "example_rdr = \<lparr>dr_UID = ''def-data-reader'', dr_template_for = ''DataReader''\<rparr>"

definition scenario_app :: ReadoutApplication where
  "scenario_app =
     \<lparr>app_UID = ''ru1'', link_handler = Some example_lh,
      queue_rules = [\<lparr>destination_class = ''DLH'', qr_descriptor = Some example_qd\<rparr>],
      network_rules = [\<lparr>endpoint_class = ''DLH'', nr_descriptor = Some example_nd\<rparr>],
      tp_handler = None, tp_src_id = 0, data_reader = Some example_rdr,
      contains = [ReadoutGroup ''G1'' [DROStreamConf ''s1'' 1, DROStreamConf ''s2'' 2]]\<rparr>"

definition scenario_session :: Session where
  "scenario_session u = (u = ''s2'')"

definition scenario_modules :: "DaqModule list" where
  "scenario_modules = [DLH ''DLH-1'', DataReader ''datareader-ru1-0'']"

definition scenario_records :: "ConfigObject list" where
  "scenario_records =
     [\<lparr>contained_in = ''ru1.data.xml'', class_name = ''DLH'', UID = ''DLH-1'',
       attributes = [''source_id'' \<mapsto> U32Val 1],
       relations = [''handler_configuration'' \<mapsto> [''def-link-handler''],
                    ''inputs'' \<mapsto> [''inputToDLH-1'', ''tp_conn_00000001'']]\<rparr>,
      \<lparr>contained_in = ''ru1.data.xml'', class_name = ''Queue'', UID = ''inputToDLH-1'',
       attributes = [''data_type'' \<mapsto> StrVal ''WIBFrame'',
                     ''queue_type'' \<mapsto> StrVal ''kFollySPSCQueue'',
                     ''capacity'' \<mapsto> U32Val 100],
       relations = Map.empty\<rparr>,
      \<lparr>contained_in = ''ru1.data.xml'', class_name = ''NetworkConnection'',
       UID = ''tp_conn_00000001'',
       attributes = [''data_type'' \<mapsto> StrVal ''DataRequest'',
                     ''connection_type'' \<mapsto> StrVal ''kSendRecv'',
                     ''uri'' \<mapsto> StrVal ''tcp://localhost'',
                     ''port'' \<mapsto> U16Val 14000],
       relations = Map.empty\<rparr>,
      \<lparr>contained_in = ''ru1.data.xml'', class_name = ''DataReader'', UID = ''datareader-ru1-0'',
       attributes = Map.empty,
       relations = [''outputs'' \<mapsto> [''inputToDLH-1''],
                    ''configuration'' \<mapsto> [''def-data-reader'']]\<rparr>]"

text \<open>
  The second has a TP handler with the source id 7, the group G1 with the stream 43
  enabled and the stream 2 disabled, the disabled group G2, a disabled object that is
  not a group, the group G3 whose only stream is disabled, and the group G4 with the
  stream 5 enabled.
\<close>

definition example_tp_qd :: QueueDescriptor where
  "example_tp_qd = \<lparr>qd_data_type = ''TriggerPrimitive'', qd_queue_type = ''kFollyMPMCQueue'', qd_capacity = 10\<rparr>"

definition example_tp_nd :: NetworkConnectionDescriptor where
  "example_tp_nd = \<lparr>nd_uid_base = ''tp_req_'', nd_data_type = ''DataRequest'',
     nd_connection_type = ''kSendRecv'', nd_uri = ''tcp://localhost'', nd_port = 15000\<rparr>"

definition example_app :: ReadoutApplication where
  "example_app =
     \<lparr>app_UID = ''ru2'', link_handler = Some example_lh,
      queue_rules = [\<lparr>destination_class = ''DLH'', qr_descriptor = Some example_qd\<rparr>,
                     \<lparr>destination_class = ''TPHandler'', qr_descriptor = Some example_tp_qd\<rparr>],
      network_rules = [\<lparr>endpoint_class = ''TPHandler'', nr_descriptor = Some example_tp_nd\<rparr>,
                       \<lparr>endpoint_class = ''DLH'', nr_descriptor = Some example_nd\<rparr>],
      tp_handler = Some \<lparr>tp_UID = ''def-tp-handler''\<rparr>, tp_src_id = 7,
      data_reader = Some example_rdr,
      contains = [ReadoutGroup ''G1'' [DROStreamConf ''s1'' 43, DROStreamConf ''s2'' 2],
                  ReadoutGroup ''G2'' [DROStreamConf ''s3'' 3],
                  OtherResource ''x'',
                  ReadoutGroup ''G3'' [DROStreamConf ''s4'' 4],
                  ReadoutGroup ''G4'' [DROStreamConf ''s5'' 5]]\<rparr>"

definition example_session :: Session where
  "example_session u = (u \<in> set [''s2'', ''G2'', ''x'', ''s4''])"

definition example_modules :: "DaqModule list" where
  "example_modules =
     [TPHandler ''tphandler-7'', DLH ''DLH-43'', DataReader ''datareader-ru2-0'',
      DataReader ''datareader-ru2-1'', DLH ''DLH-5'', DataReader ''datareader-ru2-2'']"

definition example_records :: "ConfigObject list" where
  "example_records =
     [\<lparr>contained_in = ''ru2.data.xml'', class_name = ''Queue'', UID = ''inputToTPH-7'',
       attributes = [''data_type'' \<mapsto> StrVal ''TriggerPrimitive'',
                     ''queue_type'' \<mapsto> StrVal ''kFollyMPMCQueue'',
                     ''capacity'' \<mapsto> U32Val 10],
       relations = Map.empty\<rparr>,
      \<lparr>contained_in = ''ru2.data.xml'', class_name = ''NetworkConnection'', UID = ''ReqToTPH-7'',
       attributes = [''data_type'' \<mapsto> StrVal ''DataRequest'',
                     ''connection_type'' \<mapsto> StrVal ''kSendRecv'',
                     ''uri'' \<mapsto> StrVal ''tcp://localhost'',
                     ''port'' \<mapsto> U16Val 15000],
       relations = Map.empty\<rparr>,
      \<lparr>contained_in = ''ru2.data.xml'', class_name = ''TPHandler'', UID = ''tphandler-7'',
       attributes = [''source_id'' \<mapsto> U32Val 7],
       relations = [''handler_configuration'' \<mapsto> [''def-tp-handler''],
                    ''inputs'' \<mapsto> [''inputToTPH-7'', ''ReqToTPH-7'']]\<rparr>,
      \<lparr>contained_in = ''ru2.data.xml'', class_name = ''DLH'', UID = ''DLH-43'',
       attributes = [''source_id'' \<mapsto> U32Val 43],
       relations = [''handler_configuration'' \<mapsto> [''def-link-handler''],
                    ''outputs'' \<mapsto> [''inputToTPH-7''],
                    ''inputs'' \<mapsto> [''inputToDLH-43'', ''tp_conn_0000002b'']]\<rparr>,
      \<lparr>contained_in = ''ru2.data.xml'', class_name = ''Queue'', UID = ''inputToDLH-43'',
       attributes = [''data_type'' \<mapsto> StrVal ''WIBFrame'',
                     ''queue_type'' \<mapsto> StrVal ''kFollySPSCQueue'',
                     ''capacity'' \<mapsto> U32Val 100],
       relations = Map.empty\<rparr>,
      \<lparr>contained_in = ''ru2.data.xml'', class_name = ''NetworkConnection'',
       UID = ''tp_conn_0000002b'',
       attributes = [''data_type'' \<mapsto> StrVal ''DataRequest'',
                     ''connection_type'' \<mapsto> StrVal ''kSendRecv'',
                     ''uri'' \<mapsto> StrVal ''tcp://localhost'',
                     ''port'' \<mapsto> U16Val 14000],
       relations = Map.empty\<rparr>,
      \<lparr>contained_in = ''ru2.data.xml'', class_name = ''DataReader'', UID = ''datareader-ru2-0'',
       attributes = Map.empty,
       relations = [''outputs'' \<mapsto> [''inputToDLH-43''],
                    ''configuration'' \<mapsto> [''def-data-reader'']]\<rparr>,
      \<lparr>contained_in = ''ru2.data.xml'', class_name = ''DataReader'', UID = ''datareader-ru2-1'',
       attributes = Map.empty,
       relations = [''outputs'' \<mapsto> [],
                    ''configuration'' \<mapsto> [''def-data-reader'']]\<rparr>,
      \<lparr>contained_in = ''ru2.data.xml'', class_name = ''DLH'', UID = ''DLH-5'',
       attributes = [''source_id'' \<mapsto> U32Val 5],
       relations = [''handler_configuration'' \<mapsto> [''def-link-handler''],
                    ''outputs'' \<mapsto> [''inputToTPH-7''],
                    ''inputs'' \<mapsto> [''inputToDLH-5'', ''tp_conn_00000005'']]\<rparr>,
      \<lparr>contained_in = ''ru2.data.xml'', class_name = ''Queue'', UID = ''inputToDLH-5'',
       attributes = [''data_type'' \<mapsto> StrVal ''WIBFrame'',
                     ''queue_type'' \<mapsto> StrVal ''kFollySPSCQueue'',
                     ''capacity'' \<mapsto> U32Val 100],
       relations = Map.empty\<rparr>,
      \<lparr>contained_in = ''ru2.data.xml'', class_name = ''NetworkConnection'',
       UID = ''tp_conn_00000005'',
       attributes = [''data_type'' \<mapsto> StrVal ''DataRequest'',
                     ''connection_type'' \<mapsto> StrVal ''kSendRecv'',
                     ''uri'' \<mapsto> StrVal ''tcp://localhost'',
                     ''port'' \<mapsto> U16Val 14001],
       relations = Map.empty\<rparr>,
      \<lparr>contained_in = ''ru2.data.xml'', class_name = ''DataReader'', UID = ''datareader-ru2-2'',
       attributes = Map.empty,
       relations = [''outputs'' \<mapsto> [''inputToDLH-5''],
                    ''configuration'' \<mapsto> [''def-data-reader'']]\<rparr>]"

text \<open>The third has the base port 65535 and two enabled streams.\<close>

definition wrap_nd :: NetworkConnectionDescriptor where
  "wrap_nd = example_nd\<lparr>nd_port := 65535\<rparr>"

definition wrap_app :: ReadoutApplication where
  "wrap_app =
     scenario_app
       \<lparr>network_rules := [\<lparr>endpoint_class = ''DLH'', nr_descriptor = Some wrap_nd\<rparr>],
        contains := [ReadoutGroup ''G1'' [DROStreamConf ''s1'' 1, DROStreamConf ''s3'' 3]]\<rparr>"

definition wrap_modules :: "DaqModule list" where
  "wrap_modules = [DLH ''DLH-1'', DLH ''DLH-3'', DataReader ''datareader-ru1-0'']"

definition wrap_records :: "ConfigObject list" where
  "wrap_records =
     [\<lparr>contained_in = ''ru1.data.xml'', class_name = ''DLH'', UID = ''DLH-1'',
       attributes = [''source_id'' \<mapsto> U32Val 1],
       relations = [''handler_configuration'' \<mapsto> [''def-link-handler''],
                    ''inputs'' \<mapsto> [''inputToDLH-1'', ''tp_conn_00000001'']]\<rparr>,
      \<lparr>contained_in = ''ru1.data.xml'', class_name = ''Queue'', UID = ''inputToDLH-1'',
       attributes = [''data_type'' \<mapsto> StrVal ''WIBFrame'',
                     ''queue_type'' \<mapsto> StrVal ''kFollySPSCQueue'',
                     ''capacity'' \<mapsto> U32Val 100],
       relations = Map.empty\<rparr>,
      \<lparr>contained_in = ''ru1.data.xml'', class_name = ''NetworkConnection'',
       UID = ''tp_conn_00000001'',
       attributes = [''data_type'' \<mapsto> StrVal ''DataRequest'',
                     ''connection_type'' \<mapsto> StrVal ''kSendRecv'',
                     ''uri'' \<mapsto> StrVal ''tcp://localhost'',
                     ''port'' \<mapsto> U16Val 65535],
       relations = Map.empty\<rparr>,
      \<lparr>contained_in = ''ru1.data.xml'', class_name = ''DLH'', UID = ''DLH-3'',
       attributes = [''source_id'' \<mapsto> U32Val 3],
       relations = [''handler_configuration'' \<mapsto> [''def-link-handler''],
                    ''inputs'' \<mapsto> [''inputToDLH-3'', ''tp_conn_00000003'']]\<rparr>,
      \<lparr>contained_in = ''ru1.data.xml'', class_name = ''Queue'', UID = ''inputToDLH-3'',
       attributes = [''data_type'' \<mapsto> StrVal ''WIBFrame'',
                     ''queue_type'' \<mapsto> StrVal ''kFollySPSCQueue'',
                     ''capacity'' \<mapsto> U32Val 100],
       relations = Map.empty\<rparr>,
      \<lparr>contained_in = ''ru1.data.xml'', class_name = ''NetworkConnection'',
       UID = ''tp_conn_00000003'',
       attributes = [''data_type'' \<mapsto> StrVal ''DataRequest'',
                     ''connection_type'' \<mapsto> StrVal ''kSendRecv'',
                     ''uri'' \<mapsto> StrVal ''tcp://localhost'',
                     ''port'' \<mapsto> U16Val 0],
       relations = Map.empty\<rparr>,
      \<lparr>contained_in = ''ru1.data.xml'', class_name = ''DataReader'', UID = ''datareader-ru1-0'',
       attributes = Map.empty,
       relations = [''outputs'' \<mapsto> [''inputToDLH-1'', ''inputToDLH-3''],
                    ''configuration'' \<mapsto> [''def-data-reader'']]\<rparr>]"

text \<open>
  Applications with a part missing: the handler configuration, the reader
  configuration, the queue rules, the network rules.
\<close>

definition no_handler_app :: ReadoutApplication where
  "no_handler_app = scenario_app\<lparr>link_handler := None\<rparr>"

definition no_reader_app :: ReadoutApplication where
  "no_reader_app = scenario_app\<lparr>data_reader := None\<rparr>"

definition no_queue_rule_app :: ReadoutApplication where
  "no_queue_rule_app = scenario_app\<lparr>queue_rules := []\<rparr>"

definition no_network_rule_app :: ReadoutApplication where
  "no_network_rule_app = scenario_app\<lparr>network_rules := []\<rparr>"

text \<open>An application whose two enabled streams have the same source id.\<close>

definition same_id_app :: ReadoutApplication where
  "same_id_app =
     scenario_app\<lparr>contains := [ReadoutGroup ''G1'' [DROStreamConf ''s1'' 1, DROStreamConf ''s3'' 1]]\<rparr>"

text \<open>The scenario with another address template.\<close>

definition other_template_app :: ReadoutApplication where
  "other_template_app =
     scenario_app
       \<lparr>network_rules :=
          [\<lparr>endpoint_class = ''DLH'',
            nr_descriptor = Some (example_nd\<lparr>nd_uid_base := ''dlh_req_''\<rparr>)\<rparr>]\<rparr>"

text \<open>
  The scenario with other identifiers for its group and its streams, a disabled group in
  front, a rule that loses, and a database that holds an object already.
\<close>

definition renamed_app :: ReadoutApplication where
  "renamed_app =
     scenario_app
       \<lparr>queue_rules := [\<lparr>destination_class = ''DLH'', qr_descriptor = None\<rparr>,
                        \<lparr>destination_class = ''DLH'', qr_descriptor = Some example_qd\<rparr>],
        contains := [ReadoutGroup ''H0'' [DROStreamConf ''t0'' 9],
                     ReadoutGroup ''H1'' [DROStreamConf ''t1'' 1]]\<rparr>"

definition renamed_session :: Session where
  "renamed_session u = (u = ''H0'')"

definition other_store :: Configuration where
  "other_store =
     [\<lparr>contained_in = ''session.data.xml'', class_name = ''Segment'', UID = ''root-segment'',
       attributes = Map.empty, relations = Map.empty\<rparr>]"

section \<open>Lemmas\<close>

subsection \<open>Evaluation\<close>

text \<open>
  Rules that let the simplifier run the definitions on a concrete application: \<open>bind\<close>
  goes on once its first argument is a result, and the two formatting functions unfold on
  numerals only.
\<close>

lemma bind_Inl [simp]: "bind (Inl e) f = Inl e"
  by (simp add: bind_def)

lemma bind_Inr [simp]: "bind (Inr a) f = f a"
  by (simp add: bind_def)

lemma bind_cong_weak: "m = m' \<Longrightarrow> bind m f = bind m' f"
  by simp

lemma to_string_numeral [simp]:
  "to_string (numeral k) = (if numeral k < (10::nat) then [digit_char (numeral k)]
     else to_string (numeral k div 10) @ [digit_char (numeral k mod 10)])"
  by (rule to_string.simps)

lemma to_string_0 [simp]: "to_string 0 = ''0''"
  by (simp add: to_string.simps [of 0] digit_char_def)

lemma to_string_Suc_0 [simp]: "to_string (Suc 0) = ''1''"
  by (simp add: to_string.simps [of "Suc 0"] digit_char_def)

lemma to_hex_numeral [simp]:
  "to_hex (numeral k) = (if numeral k < (16::nat) then [digit_char (numeral k)]
     else to_hex (numeral k div 16) @ [digit_char (numeral k mod 16)])"
  by (rule to_hex.simps)

lemma to_hex_0 [simp]: "to_hex 0 = ''0''"
  by (simp add: to_hex.simps [of 0] digit_char_def)

lemma to_hex_Suc_0 [simp]: "to_hex (Suc 0) = ''1''"
  by (simp add: to_hex.simps [of "Suc 0"] digit_char_def)

lemmas run_simps =
  generate_modules_def create_def create_dlh_def create_tp_handler_def Let_def
  set_by_val_def set_obj_def set_objs_def modify_def uids_def disabled_def hex_setw8_def
  digit_char_def INT_MAX_def assign_port_def

lemma replicate_numeral: "replicate (numeral k) x = x # replicate (pred_numeral k) x"
  by (simp add: numeral_eq_Suc)

subsection \<open>The rules\<close>

lemma process_queue_rules_acc:
  "process_queue_rules handler_class rules (a, b) =
     (if filter (\<lambda>r. destination_class r = ''DLH'' \<or> destination_class r = handler_class) rules = [] then a
      else qr_descriptor (last (filter (\<lambda>r. destination_class r = ''DLH'' \<or> destination_class r = handler_class) rules)),
      if filter (\<lambda>r. destination_class r = ''TPHandler'' \<and> destination_class r \<noteq> handler_class) rules = [] then b
      else qr_descriptor (last (filter (\<lambda>r. destination_class r = ''TPHandler'' \<and> destination_class r \<noteq> handler_class) rules)))"
  by (induction rules arbitrary: a b) auto

lemma process_network_rules_acc:
  "process_network_rules handler_class rules (a, b) =
     (if filter (\<lambda>r. endpoint_class r = ''DLH'' \<or> endpoint_class r = handler_class) rules = [] then a
      else nr_descriptor (last (filter (\<lambda>r. endpoint_class r = ''DLH'' \<or> endpoint_class r = handler_class) rules)),
      if filter (\<lambda>r. endpoint_class r = ''TPHandler'' \<and> endpoint_class r \<noteq> handler_class) rules = [] then b
      else nr_descriptor (last (filter (\<lambda>r. endpoint_class r = ''TPHandler'' \<and> endpoint_class r \<noteq> handler_class) rules)))"
  by (induction rules arbitrary: a b) auto

subsection \<open>The database\<close>

lemma modify_Nil [simp]: "modify h f [] = []"
  by (simp add: modify_def)

lemma modify_Cons [simp]: "modify h f (x # xs) = (if UID x = h then f x else x) # modify h f xs"
  by (simp add: modify_def)

lemma modify_append [simp]: "modify h f (xs @ ys) = modify h f xs @ modify h f ys"
  by (simp add: modify_def)

lemma modify_fresh: "h \<notin> uids confdb \<Longrightarrow> modify h f confdb = confdb"
  by (induction confdb) (auto simp: uids_def)

lemma uids_append [simp]: "uids (xs @ ys) = uids xs \<union> uids ys"
  by (simp add: uids_def)

lemma uids_Cons [simp]: "uids (x # xs) = insert (UID x) (uids xs)"
  by (simp add: uids_def)

lemma uids_Nil [simp]: "uids [] = {}"
  by (simp add: uids_def)

lemma fresh_for_Nil [simp]: "fresh_for confdb []"
  by (simp add: fresh_for_def)

lemma fresh_for_append:
  "fresh_for confdb (xs @ ys) \<longleftrightarrow> fresh_for confdb xs \<and> fresh_for (confdb @ xs) ys"
  by (auto simp: fresh_for_def uids_def)

subsection \<open>A call that returns has created the objects described above\<close>

lemma create_dlh_Inr:
  assumes "create_dlh env s off confdb = Inr (m, q, off', confdb')"
  shows "\<exists>qd nd. dlhInputQDesc env = Some qd \<and> dlhNetDesc env = Some nd \<and>
           m = DLH (''DLH-'' @ to_string (unat s)) \<and>
           q = ''inputToDLH-'' @ to_string (unat s) \<and>
           off' = Suc off \<and>
           confdb' = confdb @ [dlh_record env nd s, queue_record env qd s, network_record env nd off s] \<and>
           ''DLH-'' @ to_string (unat s) \<notin> uids confdb \<and>
           ''inputToDLH-'' @ to_string (unat s) \<notin> uids confdb \<and>
           nd_uid_base nd @ hex_setw8 s \<notin> uids confdb \<and>
           nd_uid_base nd @ hex_setw8 s \<noteq> ''DLH-'' @ to_string (unat s) \<and>
           nd_uid_base nd @ hex_setw8 s \<noteq> ''inputToDLH-'' @ to_string (unat s)"
  using assms
  by (auto simp: create_dlh_def create_def Let_def set_by_val_def set_obj_def set_objs_def
        modify_fresh dlh_record_def queue_record_def network_record_def
      split: if_splits option.splits)

lemma UID_dlh_record [simp]: "UID (dlh_record env nd s) = ''DLH-'' @ to_string (unat s)"
  by (simp add: dlh_record_def)

lemma UID_queue_record [simp]: "UID (queue_record env qd s) = ''inputToDLH-'' @ to_string (unat s)"
  by (simp add: queue_record_def)

lemma UID_network_record [simp]: "UID (network_record env nd off s) = nd_uid_base nd @ hex_setw8 s"
  by (simp add: network_record_def)

lemma UID_reader_record [simp]:
  "UID (reader_record env appUID rdrConf rnum ids) = ''datareader-'' @ appUID @ ''-'' @ to_string rnum"
  by (simp add: reader_record_def)

lemma stream_records_Nil [simp]: "stream_records env off [] = []"
  by (simp add: stream_records_def split: option.splits)

lemma stream_records_Cons:
  "dlhInputQDesc env = Some qd \<Longrightarrow> dlhNetDesc env = Some nd \<Longrightarrow>
   stream_records env off (s # ids) =
     [dlh_record env nd s, queue_record env qd s, network_record env nd off s]
       @ stream_records env (Suc off) ids"
  by (simp add: stream_records_def)

lemma stream_loop_Inr:
  assumes "stream_loop env rs off oq mods confdb = Inr (off', oq', mods', confdb')"
  shows "off' = off + length (enabled_src_ids (env_session env) rs) \<and>
         oq' = oq @ map (\<lambda>s. ''inputToDLH-'' @ to_string (unat s)) (enabled_src_ids (env_session env) rs) \<and>
         mods' = mods @ map (\<lambda>s. DLH (''DLH-'' @ to_string (unat s))) (enabled_src_ids (env_session env) rs) \<and>
         confdb' = confdb @ stream_records env off (enabled_src_ids (env_session env) rs) \<and>
         fresh_for confdb (stream_records env off (enabled_src_ids (env_session env) rs)) \<and>
         (enabled_src_ids (env_session env) rs \<noteq> [] \<longrightarrow>
            dlhInputQDesc env \<noteq> None \<and> dlhNetDesc env \<noteq> None)"
  using assms
proof (induction rs arbitrary: off oq mods confdb)
  case Nil
  then show ?case by (simp add: fresh_for_def)
next
  case (Cons res rs)
  show ?case
  proof (cases res)
    case (DROStreamConf u s)
    show ?thesis
    proof (cases "env_session env u")
      case True
      with Cons DROStreamConf show ?thesis by (simp add: disabled_def)
    next
      case False
      with Cons.prems DROStreamConf obtain m q off1 db1
        where dlh: "create_dlh env s off confdb = Inr (m, q, off1, db1)"
          and rest: "stream_loop env rs off1 (oq @ [q]) (mods @ [m]) db1 = Inr (off', oq', mods', confdb')"
        by (auto simp: disabled_def bind_def split: sum.splits)
      from create_dlh_Inr [OF dlh] obtain qd nd
        where d: "dlhInputQDesc env = Some qd" "dlhNetDesc env = Some nd"
            "m = DLH (''DLH-'' @ to_string (unat s))" "q = ''inputToDLH-'' @ to_string (unat s)"
            "off1 = Suc off"
            "db1 = confdb @ [dlh_record env nd s, queue_record env qd s, network_record env nd off s]"
            "''DLH-'' @ to_string (unat s) \<notin> uids confdb"
            "''inputToDLH-'' @ to_string (unat s) \<notin> uids confdb"
            "nd_uid_base nd @ hex_setw8 s \<notin> uids confdb"
            "nd_uid_base nd @ hex_setw8 s \<noteq> ''DLH-'' @ to_string (unat s)"
            "nd_uid_base nd @ hex_setw8 s \<noteq> ''inputToDLH-'' @ to_string (unat s)"
        by blast
      from Cons.IH [OF rest] d False DROStreamConf show ?thesis
        by (auto simp: stream_records_Cons fresh_for_def uids_def)
    qed
  next
    case (ReadoutGroup u cs)
    with Cons.prems show ?thesis by simp
  next
    case (OtherResource u)
    with Cons.prems show ?thesis by simp
  qed
qed

lemma group_loop_Inr:
  assumes "group_loop env appUID rdrConf rs rnum off mods confdb = Inr (mods', confdb')"
  shows "mods' = mods @ group_modules appUID rnum (processed_groups (env_session env) rs) \<and>
         confdb' = confdb @ group_records env appUID rdrConf rnum off (processed_groups (env_session env) rs) \<and>
         fresh_for confdb (group_records env appUID rdrConf rnum off (processed_groups (env_session env) rs)) \<and>
         (concat (processed_groups (env_session env) rs) \<noteq> [] \<longrightarrow>
            dlhInputQDesc env \<noteq> None \<and> dlhNetDesc env \<noteq> None)"
  using assms
proof (induction rs arbitrary: rnum off mods confdb)
  case Nil
  then show ?case by simp
next
  case (Cons roGroup rs)
  show ?case
  proof (cases "disabled roGroup (env_session env)")
    case True
    with Cons show ?thesis
      by (cases roGroup) (simp_all add: disabled_def)
  next
    case False
    with Cons.prems obtain u cs where g: "roGroup = ReadoutGroup u cs"
      by (cases roGroup) simp_all
    let ?ids = "enabled_src_ids (env_session env) cs"
    let ?r = "reader_record env appUID rdrConf rnum ?ids"
    from Cons.prems False g obtain off1 oq1 mods1 db1 db2
      where streams: "stream_loop env cs off [] mods confdb = Inr (off1, oq1, mods1, db1)"
        and reader: "create (env_dbfile env) (dr_template_for rdrConf)
                       (''datareader-'' @ appUID @ ''-'' @ to_string rnum) db1 = Inr db2"
        and rest: "group_loop env appUID rdrConf rs (rnum + 1) off1
                     (mods1 @ [DataReader (''datareader-'' @ appUID @ ''-'' @ to_string rnum)])
                     (set_obj (''datareader-'' @ appUID @ ''-'' @ to_string rnum) ''configuration'' (dr_UID rdrConf)
                        (set_objs (''datareader-'' @ appUID @ ''-'' @ to_string rnum) ''outputs'' oq1 db2))
                   = Inr (mods', confdb')"
      by (auto simp: bind_def Let_def split: sum.splits if_splits)
    from stream_loop_Inr [OF streams]
    have s: "off1 = off + length ?ids"
        "oq1 = map (\<lambda>s. ''inputToDLH-'' @ to_string (unat s)) ?ids"
        "mods1 = mods @ map (\<lambda>s. DLH (''DLH-'' @ to_string (unat s))) ?ids"
        "db1 = confdb @ stream_records env off ?ids"
        "fresh_for confdb (stream_records env off ?ids)"
        "?ids \<noteq> [] \<longrightarrow> dlhInputQDesc env \<noteq> None \<and> dlhNetDesc env \<noteq> None"
      by simp_all
    from reader have fresh: "''datareader-'' @ appUID @ ''-'' @ to_string rnum \<notin> uids db1"
      and db2: "db2 = db1 @ [\<lparr>contained_in = env_dbfile env, class_name = dr_template_for rdrConf,
                  UID = ''datareader-'' @ appUID @ ''-'' @ to_string rnum,
                  attributes = Map.empty, relations = Map.empty\<rparr>]"
      by (auto simp: create_def split: if_splits)
    have db3: "set_obj (''datareader-'' @ appUID @ ''-'' @ to_string rnum) ''configuration'' (dr_UID rdrConf)
                 (set_objs (''datareader-'' @ appUID @ ''-'' @ to_string rnum) ''outputs'' oq1 db2)
               = db1 @ [?r]"
      using fresh by (simp add: db2 set_obj_def set_objs_def modify_fresh reader_record_def s(2))
    have fr: "fresh_for db1 [?r]"
      using fresh by (simp add: fresh_for_def)
    from Cons.IH [OF rest [unfolded db3]]
    have ih: "mods' = (mods1 @ [DataReader (''datareader-'' @ appUID @ ''-'' @ to_string rnum)])
                @ group_modules appUID (rnum + 1) (processed_groups (env_session env) rs)"
        "confdb' = (db1 @ [?r])
                @ group_records env appUID rdrConf (rnum + 1) off1 (processed_groups (env_session env) rs)"
        "fresh_for (db1 @ [?r])
           (group_records env appUID rdrConf (rnum + 1) off1 (processed_groups (env_session env) rs))"
        "concat (processed_groups (env_session env) rs) \<noteq> [] \<longrightarrow>
            dlhInputQDesc env \<noteq> None \<and> dlhNetDesc env \<noteq> None"
      by simp_all
    have pg: "processed_groups (env_session env) (roGroup # rs)
                = ?ids # processed_groups (env_session env) rs"
      using g False by (simp add: disabled_def)
    have "fresh_for confdb (stream_records env off ?ids @ [?r]
            @ group_records env appUID rdrConf (Suc rnum) (off + length ?ids)
                (processed_groups (env_session env) rs))"
      using s(5) fr ih(3) unfolding s(1) s(4) fresh_for_def uids_def by auto
    moreover have "concat (?ids # processed_groups (env_session env) rs) \<noteq> [] \<longrightarrow>
            dlhInputQDesc env \<noteq> None \<and> dlhNetDesc env \<noteq> None"
      using s(6) ih(4) by auto
    ultimately show ?thesis
      unfolding pg using ih(1,2) by (simp add: s(1) s(3) s(4))
  qed
qed

lemma create_tp_handler_present:
  assumes "tp_handler app = Some conf" "tpInputQDesc = Some qd" "tpNetDesc = Some nd"
    "tp_src_id app \<noteq> 0"
    "''inputToTPH-'' @ to_string (unat (tp_src_id app)) \<notin> uids confdb"
    "''ReqToTPH-'' @ to_string (unat (tp_src_id app)) \<notin> uids confdb"
    "''tphandler-'' @ to_string (unat (tp_src_id app)) \<notin> uids confdb"
  shows "create_tp_handler app dbfile tpInputQDesc tpNetDesc confdb =
           Inr ([TPHandler (''tphandler-'' @ to_string (unat (tp_src_id app)))],
                Some (''inputToTPH-'' @ to_string (unat (tp_src_id app))),
                confdb @ [tp_queue_record dbfile qd (tp_src_id app),
                          tp_network_record dbfile nd (tp_src_id app),
                          tp_handler_record dbfile conf (tp_src_id app)])"
  using assms
  by (simp add: create_tp_handler_def create_def Let_def set_by_val_def set_obj_def set_objs_def
        modify_fresh tp_queue_record_def tp_network_record_def tp_handler_record_def)

lemma create_tp_handler_Inr:
  assumes "create_tp_handler app dbfile tpInputQDesc tpNetDesc confdb = Inr (mods, h, confdb')"
  shows "mods = tp_modules app \<and> h = tp_queue_handle app \<and>
         confdb' = confdb @ tp_records app dbfile tpInputQDesc tpNetDesc \<and>
         fresh_for confdb (tp_records app dbfile tpInputQDesc tpNetDesc) \<and>
         (tp_handler app \<noteq> None \<longrightarrow>
            tpInputQDesc \<noteq> None \<and> tpNetDesc \<noteq> None \<and> tp_src_id app \<noteq> 0)"
  using assms
  by (auto simp: create_tp_handler_def create_def Let_def set_by_val_def set_obj_def set_objs_def
        modify_fresh tp_queue_record_def tp_network_record_def tp_handler_record_def
        tp_records_def tp_modules_def tp_queue_handle_def fresh_for_def
      split: option.splits if_splits)

lemma generate_modules_Inr:
  assumes "generate_modules app confdb dbfile session = Inr (mods, confdb')"
  shows "\<exists>lh rdrConf.
           link_handler app = Some lh \<and> data_reader app = Some rdrConf \<and>
           mods = run_modules app session \<and>
           confdb' = confdb @ run_records app dbfile session \<and>
           fresh_for confdb (run_records app dbfile session) \<and>
           run_records app dbfile session =
             tp_records app dbfile (tp_queue_descriptor app lh) (tp_network_descriptor app lh)
             @ group_records (run_env app dbfile session lh) (app_UID app) rdrConf 0 0
                 (processed_groups session (contains app)) \<and>
           (tp_handler app \<noteq> None \<longrightarrow>
              tp_queue_descriptor app lh \<noteq> None \<and> tp_network_descriptor app lh \<noteq> None \<and>
              tp_src_id app \<noteq> 0) \<and>
           (concat (processed_groups session (contains app)) \<noteq> [] \<longrightarrow>
              dlh_queue_descriptor app lh \<noteq> None \<and> dlh_network_descriptor app lh \<noteq> None)"
proof -
  from assms obtain lh where lh: "link_handler app = Some lh"
    by (auto simp: generate_modules_def split: option.splits)
  obtain dq tq where q: "process_queue_rules (lh_template_for lh) (queue_rules app) (None, None) = (dq, tq)"
    by (cases "process_queue_rules (lh_template_for lh) (queue_rules app) (None, None)")
  obtain dn tn where n: "process_network_rules (lh_template_for lh) (network_rules app) (None, None) = (dn, tn)"
    by (cases "process_network_rules (lh_template_for lh) (network_rules app) (None, None)")
  have descs: "dlh_queue_descriptor app lh = dq" "tp_queue_descriptor app lh = tq"
      "dlh_network_descriptor app lh = dn" "tp_network_descriptor app lh = tn"
    by (simp_all add: dlh_queue_descriptor_def tp_queue_descriptor_def
          dlh_network_descriptor_def tp_network_descriptor_def q n)
  from assms lh q n obtain m0 h db0 rdrConf
    where tp: "create_tp_handler app dbfile tq tn confdb = Inr (m0, h, db0)"
      and rdr: "data_reader app = Some rdrConf"
      and loop: "group_loop \<lparr>env_dbfile = dbfile, env_session = session, dlhConf = lh,
                    dlhClass = lh_template_for lh, dlhInputQDesc = dq, dlhNetDesc = dn,
                    tpHandlerConf = tp_handler app, tpQueueObj = h\<rparr>
                   (app_UID app) rdrConf (contains app) 0 0 m0 db0 = Inr (mods, confdb')"
    by (auto simp: generate_modules_def bind_def split: sum.splits option.splits)
  from create_tp_handler_Inr [OF tp]
  have t: "m0 = tp_modules app" "h = tp_queue_handle app"
      "db0 = confdb @ tp_records app dbfile tq tn"
      "fresh_for confdb (tp_records app dbfile tq tn)"
      "tp_handler app \<noteq> None \<longrightarrow> tq \<noteq> None \<and> tn \<noteq> None \<and> tp_src_id app \<noteq> 0"
    by simp_all
  have env: "\<lparr>env_dbfile = dbfile, env_session = session, dlhConf = lh,
               dlhClass = lh_template_for lh, dlhInputQDesc = dq, dlhNetDesc = dn,
               tpHandlerConf = tp_handler app, tpQueueObj = h\<rparr> = run_env app dbfile session lh"
    by (simp add: run_env_def descs t(2))
  from group_loop_Inr [OF loop [unfolded env]]
  have g: "mods = m0 @ group_modules (app_UID app) 0 (processed_groups session (contains app))"
      "confdb' = db0 @ group_records (run_env app dbfile session lh) (app_UID app) rdrConf 0 0
                   (processed_groups session (contains app))"
      "fresh_for db0 (group_records (run_env app dbfile session lh) (app_UID app) rdrConf 0 0
                   (processed_groups session (contains app)))"
      "concat (processed_groups session (contains app)) \<noteq> [] \<longrightarrow> dq \<noteq> None \<and> dn \<noteq> None"
    by (simp_all add: run_env_def descs)
  have rr: "run_records app dbfile session = tp_records app dbfile tq tn
              @ group_records (run_env app dbfile session lh) (app_UID app) rdrConf 0 0
                  (processed_groups session (contains app))"
    by (simp add: run_records_def lh rdr descs)
  have "mods = run_modules app session" "confdb' = confdb @ run_records app dbfile session"
      "fresh_for confdb (run_records app dbfile session)"
    using t g unfolding rr by (simp_all add: run_modules_def fresh_for_append)
  with lh rdr rr t(5) g(4) show ?thesis by (simp add: descs)
qed

text \<open>An error of the TP handler block is the error of the call.\<close>

lemma generate_modules_tp_error:
  assumes "link_handler app = Some lh"
    and "create_tp_handler app dbfile (tp_queue_descriptor app lh)
           (tp_network_descriptor app lh) confdb = Inl e"
  shows "generate_modules app confdb dbfile session = Inl e"
proof -
  obtain dq tq where q: "process_queue_rules (lh_template_for lh) (queue_rules app) (None, None) = (dq, tq)"
    by (cases "process_queue_rules (lh_template_for lh) (queue_rules app) (None, None)")
  obtain dn tn where n: "process_network_rules (lh_template_for lh) (network_rules app) (None, None) = (dn, tn)"
    by (cases "process_network_rules (lh_template_for lh) (network_rules app) (None, None)")
  from assms(2) have "create_tp_handler app dbfile tq tn confdb = Inl e"
    by (simp add: tp_queue_descriptor_def tp_network_descriptor_def q n)
  then show ?thesis
    by (simp add: generate_modules_def assms(1) q n)
qed

subsection \<open>Where the objects of a call are\<close>


lemma filter_UID_distinct:
  "distinct (map UID xs) \<Longrightarrow> x \<in> set xs \<Longrightarrow> filter (\<lambda>obj. UID obj = UID x) xs = [x]"
proof (induction xs)
  case Nil
  then show ?case by simp
next
  case (Cons y ys)
  show ?case
  proof (cases "x = y")
    case True
    from Cons.prems have "UID y \<notin> UID ` set ys" by simp
    then have "\<forall>obj\<in>set ys. UID obj \<noteq> UID y" by (metis imageI)
    then have "filter (\<lambda>obj. UID obj = UID y) ys = []" by (simp add: filter_empty_conv)
    with True show ?thesis by simp
  next
    case False
    with Cons.prems have "x \<in> set ys" "UID y \<noteq> UID x" by auto
    with Cons show ?thesis by simp
  qed
qed

lemma filter_UID_fresh:
  assumes "fresh_for confdb new" "x \<in> set new"
  shows "filter (\<lambda>obj. UID obj = UID x) (confdb @ new) = [x]"
proof -
  from assms have "\<forall>obj\<in>set confdb. UID obj \<noteq> UID x"
    by (auto simp: fresh_for_def uids_def)
  then have "filter (\<lambda>obj. UID obj = UID x) confdb = []" by (simp add: filter_empty_conv)
  moreover from assms have "filter (\<lambda>obj. UID obj = UID x) new = [x]"
    by (simp add: fresh_for_def filter_UID_distinct)
  ultimately show ?thesis by simp
qed

lemma created_append [simp]: "created confdb (confdb @ new) = new"
  by (simp add: created_def)

lemma stream_records_nth:
  assumes "dlhInputQDesc env = Some qd" "dlhNetDesc env = Some nd" "k < length ids"
  shows "dlh_record env nd (ids ! k) \<in> set (stream_records env off ids) \<and>
         queue_record env qd (ids ! k) \<in> set (stream_records env off ids) \<and>
         network_record env nd (off + k) (ids ! k) \<in> set (stream_records env off ids)"
  using assms(3)
proof (induction ids arbitrary: off k)
  case Nil
  then show ?case by simp
next
  case (Cons s ids)
  show ?case
  proof (cases k)
    case 0
    then show ?thesis by (simp add: stream_records_Cons [OF assms(1,2)])
  next
    case (Suc j)
    with Cons.prems have "j < length ids" by simp
    from Cons.IH [OF this, where off = "Suc off"] Suc show ?thesis
      by (simp add: stream_records_Cons [OF assms(1,2)])
  qed
qed

lemma reader_record_nth:
  "k < length gs \<Longrightarrow>
   reader_record env appUID rdrConf (rnum + k) (gs ! k) \<in> set (group_records env appUID rdrConf rnum off gs)"
proof (induction gs arbitrary: rnum off k)
  case Nil
  then show ?case by simp
next
  case (Cons ids gs)
  show ?case
  proof (cases k)
    case 0
    then show ?thesis by simp
  next
    case (Suc j)
    with Cons.prems have "j < length gs" by simp
    from Cons.IH [OF this, where rnum = "Suc rnum" and off = "off + length ids"] Suc
    show ?thesis by simp
  qed
qed

lemma stream_records_subset:
  "ids \<in> set gs \<Longrightarrow>
   \<exists>off'. set (stream_records env off' ids) \<subseteq> set (group_records env appUID rdrConf rnum off gs)"
proof (induction gs arbitrary: rnum off)
  case Nil
  then show ?case by simp
next
  case (Cons ids' gs)
  show ?case
  proof (cases "ids = ids'")
    case True
    then show ?thesis by (intro exI [of _ off]) auto
  next
    case False
    with Cons.prems have "ids \<in> set gs" by simp
    from Cons.IH [OF this, where rnum = "Suc rnum" and off = "off + length ids'"]
    show ?thesis by auto
  qed
qed

lemma network_record_nth:
  assumes "dlhInputQDesc env = Some qd" "dlhNetDesc env = Some nd"
  shows "k < length (concat gs) \<Longrightarrow>
         network_record env nd (off + k) (concat gs ! k)
           \<in> set (group_records env appUID rdrConf rnum off gs)"
proof (induction gs arbitrary: rnum off k)
  case Nil
  then show ?case by simp
next
  case (Cons ids gs)
  show ?case
  proof (cases "k < length ids")
    case True
    with stream_records_nth [OF assms True, of off] show ?thesis
      by (simp add: nth_append)
  next
    case False
    with Cons.prems have "k - length ids < length (concat gs)" by simp
    from Cons.IH [OF this, where rnum = "Suc rnum" and off = "off + length ids"] False
    show ?thesis by (simp add: nth_append)
  qed
qed

lemma length_stream_records:
  "dlhInputQDesc env = Some qd \<Longrightarrow> dlhNetDesc env = Some nd \<Longrightarrow>
   length (stream_records env off ids) = 3 * length ids"
  by (induction ids arbitrary: off) (simp_all add: stream_records_Cons)

lemma length_group_records:
  "concat gs \<noteq> [] \<longrightarrow> dlhInputQDesc env \<noteq> None \<and> dlhNetDesc env \<noteq> None \<Longrightarrow>
   length (group_records env appUID rdrConf rnum off gs) = 3 * length (concat gs) + length gs"
proof (induction gs arbitrary: rnum off)
  case Nil
  then show ?case by simp
next
  case (Cons ids gs)
  have "length (stream_records env off ids) = 3 * length ids"
  proof (cases "ids = []")
    case True
    then show ?thesis by simp
  next
    case False
    with Cons.prems obtain qd nd where "dlhInputQDesc env = Some qd" "dlhNetDesc env = Some nd"
      by auto
    then show ?thesis by (rule length_stream_records)
  qed
  moreover from Cons.prems
  have "concat gs \<noteq> [] \<longrightarrow> dlhInputQDesc env \<noteq> None \<and> dlhNetDesc env \<noteq> None" by auto
  from Cons.IH [OF this]
  have "length (group_records env appUID rdrConf (Suc rnum) (off + length ids) gs)
          = 3 * length (concat gs) + length gs" .
  ultimately show ?case by simp
qed

lemma run_env_simps [simp]:
  "env_dbfile (run_env app dbfile session lh) = dbfile"
  "dlhClass (run_env app dbfile session lh) = lh_template_for lh"
  "dlhConf (run_env app dbfile session lh) = lh"
  "dlhInputQDesc (run_env app dbfile session lh) = dlh_queue_descriptor app lh"
  "dlhNetDesc (run_env app dbfile session lh) = dlh_network_descriptor app lh"
  "tpHandlerConf (run_env app dbfile session lh) = tp_handler app"
  "tpQueueObj (run_env app dbfile session lh) = tp_queue_handle app"
  by (simp_all add: run_env_def)

lemma length_tp_records:
  "tp_handler app \<noteq> None \<longrightarrow> tq \<noteq> None \<and> tn \<noteq> None \<Longrightarrow>
   length (tp_records app dbfile tq tn) = (case tp_handler app of None \<Rightarrow> 0 | Some _ \<Rightarrow> 3)"
  by (auto simp: tp_records_def split: option.splits)

lemma network_record_of_kth_stream:
  assumes "generate_modules app confdb dbfile session = Inr (mods, confdb')"
    and "link_handler app = Some lh"
    and "dlh_network_descriptor app lh = Some nd"
    and "k < length (concat (processed_groups session (contains app)))"
  shows "filter (\<lambda>obj. UID obj = nd_uid_base nd @ hex_setw8 (concat (processed_groups session (contains app)) ! k)) confdb'
           = [network_record (run_env app dbfile session lh) nd k
                (concat (processed_groups session (contains app)) ! k)] \<and>
         network_record (run_env app dbfile session lh) nd k
           (concat (processed_groups session (contains app)) ! k) \<in> set (created confdb confdb')"
proof -
  let ?gs = "processed_groups session (contains app)"
  let ?new = "run_records app dbfile session"
  let ?env = "run_env app dbfile session lh"
  from generate_modules_Inr [OF assms(1)] assms(2) obtain rdrConf
    where db: "confdb' = confdb @ ?new"
      and fresh: "fresh_for confdb ?new"
      and new: "?new = tp_records app dbfile (tp_queue_descriptor app lh) (tp_network_descriptor app lh)
                  @ group_records ?env (app_UID app) rdrConf 0 0 ?gs"
      and descs: "concat ?gs \<noteq> [] \<longrightarrow>
                 dlh_queue_descriptor app lh \<noteq> None \<and> dlh_network_descriptor app lh \<noteq> None"
    by auto
  from assms(4) have "concat ?gs \<noteq> []" by (metis list.size(3) not_less_zero)
  with descs obtain qd where qd: "dlhInputQDesc ?env = Some qd" by auto
  have nd: "dlhNetDesc ?env = Some nd" by (simp add: assms(3))
  let ?n = "network_record ?env nd k (concat ?gs ! k)"
  from network_record_nth [OF qd nd assms(4), of 0 "app_UID app" rdrConf 0]
  have n_in: "?n \<in> set ?new" by (subst new) simp
  from filter_UID_fresh [OF fresh n_in] n_in show ?thesis by (simp add: db)
qed

lemma assign_port_add: "port \<noteq> 0 \<Longrightarrow> assign_port port k = port + word_of_nat k"
  by (simp add: assign_port_def)

lemma unat_assign_port: "port \<noteq> 0 \<Longrightarrow> unat (assign_port port k) = (unat port + k) mod 2 ^ 16"
proof -
  assume "port \<noteq> 0"
  then have "assign_port port k = word_of_nat (unat port + k)"
    by (simp only: assign_port_def if_True not_False_eq_True simp_thms)
  then show ?thesis
    by (simp only: unat_of_nat) simp
qed

lemma assign_port_zero [simp]: "assign_port 0 k = 0"
  by (simp add: assign_port_def)

lemma assign_port_period: "assign_port port (k + 2 ^ 16) = assign_port port k"
proof (cases "port = 0")
  case True
  then show ?thesis by simp
next
  case False
  have "unat (assign_port port (k + 2 ^ 16)) = unat (assign_port port k)"
    using False by (simp add: unat_assign_port add.assoc [symmetric])
  then show ?thesis by (simp add: word_unat_eq_iff)
qed

lemma assign_port_reaches_zero: "port \<noteq> 0 \<Longrightarrow> assign_port port (2 ^ 16 - unat port) = 0"
proof -
  assume nz: "port \<noteq> 0"
  have "unat port < 2 ^ 16" using unsigned_less [of port, where 'a = nat] by simp
  then have "unat (assign_port port (2 ^ 16 - unat port)) = 0"
    using nz by (simp add: unat_assign_port)
  then show ?thesis by (simp add: word_unat_eq_iff)
qed

subsection \<open>The identifiers and the classes of the objects of a call\<close>

lemma class_uid_stream_records:
  "dlhInputQDesc env = Some qd \<Longrightarrow> dlhNetDesc env = Some nd \<Longrightarrow>
   map (\<lambda>obj. (class_name obj, UID obj)) (stream_records env off ids) =
     concat (map (\<lambda>s. [(dlhClass env, ''DLH-'' @ to_string (unat s)),
                        (''Queue'', ''inputToDLH-'' @ to_string (unat s)),
                        (''NetworkConnection'', nd_uid_base nd @ hex_setw8 s)]) ids)"
  by (induction ids arbitrary: off)
     (simp_all add: stream_records_Cons dlh_record_def queue_record_def network_record_def)

lemma class_uid_group_records:
  assumes "dlhNetDesc env = Some nd \<or> concat gs = []"
    and "concat gs \<noteq> [] \<longrightarrow> dlhInputQDesc env \<noteq> None"
  shows "map (\<lambda>obj. (class_name obj, UID obj)) (group_records env appUID rdrConf rnum off gs) =
     concat (map (\<lambda>(groupIndex, ids).
                    concat (map (\<lambda>s. [(dlhClass env, ''DLH-'' @ to_string (unat s)),
                                       (''Queue'', ''inputToDLH-'' @ to_string (unat s)),
                                       (''NetworkConnection'', nd_uid_base nd @ hex_setw8 s)]) ids)
                    @ [(dr_template_for rdrConf, ''datareader-'' @ appUID @ ''-'' @ to_string groupIndex)])
               (enumerate rnum gs))"
  using assms
proof (induction gs arbitrary: rnum off)
  case Nil
  then show ?case by simp
next
  case (Cons ids gs)
  have streams: "map (\<lambda>obj. (class_name obj, UID obj)) (stream_records env off ids) =
     concat (map (\<lambda>s. [(dlhClass env, ''DLH-'' @ to_string (unat s)),
                        (''Queue'', ''inputToDLH-'' @ to_string (unat s)),
                        (''NetworkConnection'', nd_uid_base nd @ hex_setw8 s)]) ids)"
  proof (cases "ids = []")
    case True
    then show ?thesis by simp
  next
    case False
    with Cons.prems obtain qd where "dlhInputQDesc env = Some qd" "dlhNetDesc env = Some nd"
      by auto
    then show ?thesis by (rule class_uid_stream_records)
  qed
  from Cons.prems have "dlhNetDesc env = Some nd \<or> concat gs = []"
      "concat gs \<noteq> [] \<longrightarrow> dlhInputQDesc env \<noteq> None"
    by auto
  from Cons.IH [OF this, where rnum = "Suc rnum" and off = "off + length ids"] streams
  show ?case by (simp add: reader_record_def)
qed

lemma class_uid_tp_records:
  "tp_handler app \<noteq> None \<longrightarrow> tq \<noteq> None \<and> tn \<noteq> None \<Longrightarrow>
   map (\<lambda>obj. (class_name obj, UID obj)) (tp_records app dbfile tq tn) =
     (case tp_handler app of
        None \<Rightarrow> []
      | Some _ \<Rightarrow> [(''Queue'', ''inputToTPH-'' @ to_string (unat (tp_src_id app))),
                   (''NetworkConnection'', ''ReqToTPH-'' @ to_string (unat (tp_src_id app))),
                   (''TPHandler'', ''tphandler-'' @ to_string (unat (tp_src_id app)))])"
  by (auto simp: tp_records_def tp_queue_record_def tp_network_record_def tp_handler_record_def
      split: option.splits)

lemma group_modules_enumerate:
  "group_modules appUID rnum gs =
     concat (map (\<lambda>(groupIndex, ids).
                    map (\<lambda>s. DLH (''DLH-'' @ to_string (unat s))) ids
                    @ [DataReader (''datareader-'' @ appUID @ ''-'' @ to_string groupIndex)])
               (enumerate rnum gs))"
  by (induction gs arbitrary: rnum) simp_all

lemma group_modules_counts:
  "length (filter is_DLH (group_modules appUID rnum gs)) = length (concat gs) \<and>
   length (filter is_DataReader (group_modules appUID rnum gs)) = length gs \<and>
   filter is_TPHandler (group_modules appUID rnum gs) = [] \<and>
   length (group_modules appUID rnum gs) = length (concat gs) + length gs"
  by (induction gs arbitrary: rnum) (simp_all add: filter_map comp_def)

subsection \<open>The digits of an identifier\<close>

lemma digit_value_digit_char: "d < 16 \<Longrightarrow> digit_value (digit_char d) = d"
proof -
  assume "d < 16"
  then have "d \<in> set [0..<16]" by simp
  then show ?thesis
    by (simp add: upt_conv_Cons digit_value_def digit_char_def del: upt_Suc) (elim disjE; simp)
qed

lemma digit_char_hex: "d < 16 \<Longrightarrow> digit_char d \<in> set ''0123456789abcdef''"
  unfolding digit_char_def by (rule nth_mem) simp

lemma digit_char_dec: "d < 10 \<Longrightarrow> digit_char d \<in> set ''0123456789''"
proof -
  assume "d < 10"
  then have "''0123456789abcdef'' ! d = ''0123456789'' ! d"
    using nth_append [of "''0123456789''" "''abcdef''" d] by simp
  moreover from \<open>d < 10\<close> have "''0123456789'' ! d \<in> set ''0123456789''"
    by (intro nth_mem) simp
  ultimately show ?thesis by (simp add: digit_char_def)
qed

lemma digits_value_snoc:
  "digits_value base (s @ [c]) = digits_value base s * base + digit_value c"
  by (simp add: digits_value_def)

lemma to_hex_value: "digits_value 16 (to_hex n) = n"
proof (induction n rule: to_hex.induct)
  case (1 n)
  show ?case
  proof (cases "n < 16")
    case True
    then show ?thesis
      by (simp add: to_hex.simps [of n] digits_value_def digit_value_digit_char)
  next
    case False
    with 1 have "digits_value 16 (to_hex (n div 16)) = n div 16" by simp
    with False show ?thesis
      by (simp add: to_hex.simps [of n] digits_value_snoc digit_value_digit_char)
  qed
qed

lemma to_string_value: "digits_value 10 (to_string n) = n"
proof (induction n rule: to_string.induct)
  case (1 n)
  show ?case
  proof (cases "n < 10")
    case True
    then show ?thesis
      by (simp add: to_string.simps [of n] digits_value_def digit_value_digit_char)
  next
    case False
    with 1 have "digits_value 10 (to_string (n div 10)) = n div 10" by simp
    moreover have "n mod 10 < 16" by (rule less_trans [of _ 10]) simp_all
    ultimately show ?thesis using False
      by (simp add: to_string.simps [of n] digits_value_snoc digit_value_digit_char)
  qed
qed

lemma to_hex_digits: "set (to_hex n) \<subseteq> set ''0123456789abcdef''"
proof (induction n rule: to_hex.induct)
  case (1 n)
  show ?case
  proof (cases "n < 16")
    case True
    with digit_char_hex [of n] show ?thesis by (simp add: to_hex.simps [of n])
  next
    case False
    with 1 have "set (to_hex (n div 16)) \<subseteq> set ''0123456789abcdef''" by simp
    with False digit_char_hex [of "n mod 16"] show ?thesis
      by (simp add: to_hex.simps [of n])
  qed
qed

lemma to_string_digits: "set (to_string n) \<subseteq> set ''0123456789''"
proof (induction n rule: to_string.induct)
  case (1 n)
  show ?case
  proof (cases "n < 10")
    case True
    with digit_char_dec [of n] show ?thesis by (simp add: to_string.simps [of n])
  next
    case False
    with 1 have "set (to_string (n div 10)) \<subseteq> set ''0123456789''" by simp
    with False digit_char_dec [of "n mod 10"] show ?thesis
      by (simp add: to_string.simps [of n])
  qed
qed

lemma length_to_hex: "0 < k \<Longrightarrow> n < 16 ^ k \<Longrightarrow> length (to_hex n) \<le> k"
proof (induction k arbitrary: n)
  case 0
  then show ?case by simp
next
  case (Suc k)
  show ?case
  proof (cases "n < 16")
    case True
    then show ?thesis by (simp add: to_hex.simps [of n])
  next
    case False
    then have k: "0 < k"
      using Suc.prems(2) by (cases k) simp_all
    from Suc.prems(2) have "n div 16 < 16 ^ k"
      by (simp add: less_mult_imp_div_less mult.commute)
    from Suc.IH [OF k this] False show ?thesis by (simp add: to_hex.simps [of n])
  qed
qed

lemma digits_value_zeros: "digits_value base (replicate k CHR ''0'' @ s) = digits_value base s"
proof -
  have "foldl (\<lambda>acc c. acc * base + digit_value c) 0 (replicate k CHR ''0'') = 0"
    by (induction k) (simp_all add: digit_value_def)
  then show ?thesis by (simp add: digits_value_def)
qed

lemma hex_setw8_format:
  "length (hex_setw8 s) = 8 \<and> set (hex_setw8 s) \<subseteq> set ''0123456789abcdef'' \<and>
   digits_value 16 (hex_setw8 s) = unat s"
proof -
  have "unat s < 2 ^ 32" using unsigned_less [of s, where 'a = nat] by simp
  then have "unat s < 16 ^ 8" by simp
  then have len: "length (to_hex (unat s)) \<le> 8" by (intro length_to_hex) simp_all
  have zero: "CHR ''0'' \<in> set ''0123456789abcdef''" by simp
  from len to_hex_digits [of "unat s"] to_hex_value [of "unat s"] zero show ?thesis
    unfolding hex_setw8_def Let_def digits_value_zeros
    by (auto simp del: set_simps simp: set_replicate_conv_if)
qed

subsection \<open>What the objects of a call depend on\<close>

lemma stream_records_of_session:
  "stream_records_of (env\<lparr>env_session := session'\<rparr>) qd nd off ids = stream_records_of env qd nd off ids"
  by (induction ids arbitrary: off)
     (simp_all add: dlh_record_def queue_record_def network_record_def cong: option.case_cong)

lemma group_records_session:
  "group_records (env\<lparr>env_session := session'\<rparr>) appUID rdrConf rnum off gs
     = group_records env appUID rdrConf rnum off gs"
  by (induction gs arbitrary: rnum off)
     (simp_all add: stream_records_def stream_records_of_session reader_record_def
        cong: option.case_cong)

lemma run_records_cong:
  assumes "run_inputs app dbfile session = run_inputs app2 dbfile2 session2"
  shows "run_records app dbfile session = run_records app2 dbfile2 session2 \<and>
         run_modules app session = run_modules app2 session2"
proof -
  from assms have eq: "dbfile2 = dbfile" "app_UID app2 = app_UID app"
      "link_handler app2 = link_handler app" "data_reader app2 = data_reader app"
      "tp_handler app2 = tp_handler app" "tp_src_id app2 = tp_src_id app"
      "processed_groups session2 (contains app2) = processed_groups session (contains app)"
    by (simp_all add: run_inputs_def)
  have mods: "run_modules app session = run_modules app2 session2"
    by (simp add: run_modules_def tp_modules_def eq cong: option.case_cong)
  have recs: "run_records app dbfile session = run_records app2 dbfile2 session2"
  proof (cases "link_handler app")
    case None
    then show ?thesis by (simp add: run_records_def eq)
  next
    case (Some lh)
    with assms
    have q: "process_queue_rules (lh_template_for lh) (queue_rules app2) (None, None)
               = process_queue_rules (lh_template_for lh) (queue_rules app) (None, None)"
      and n: "process_network_rules (lh_template_for lh) (network_rules app2) (None, None)
               = process_network_rules (lh_template_for lh) (network_rules app) (None, None)"
      by (simp_all add: run_inputs_def eq)
    have env: "run_env app2 dbfile session2 lh = (run_env app dbfile session lh)\<lparr>env_session := session2\<rparr>"
      by (simp add: run_env_def dlh_queue_descriptor_def dlh_network_descriptor_def
            tp_queue_handle_def q n eq cong: option.case_cong)
    have tp: "tp_records app2 dbfile (tp_queue_descriptor app2 lh) (tp_network_descriptor app2 lh)
                = tp_records app dbfile (tp_queue_descriptor app lh) (tp_network_descriptor app lh)"
      by (simp add: tp_records_def tp_queue_descriptor_def tp_network_descriptor_def q n eq
            cong: option.case_cong)
    show ?thesis
      by (simp add: run_records_def Some eq tp env group_records_session cong: option.case_cong)
  qed
  from mods recs show ?thesis by simp
qed

subsection \<open>The runs of the example applications\<close>

lemma to_string_Suc_Suc_0: "to_string (Suc (Suc 0)) = ''2''"
  by (simp add: to_string.simps [of "Suc (Suc 0)"] digit_char_def)

lemma port_65536: "(65536 :: 16 word) = 0"
  by simp

lemmas example_defs =
  example_qd_def example_nd_def example_lh_def example_rdr_def example_tp_qd_def
  example_tp_nd_def

lemma scenario_run:
  "generate_modules scenario_app [] ''ru1.data.xml'' scenario_session
     = Inr (scenario_modules, scenario_records)"
  by (simp add: scenario_app_def scenario_session_def scenario_modules_def scenario_records_def
        example_defs run_simps replicate_numeral cong: let_weak_cong bind_cong_weak)

lemma example_run:
  "generate_modules example_app [] ''ru2.data.xml'' example_session
     = Inr (example_modules, example_records)"
  by (simp add: example_app_def example_session_def example_modules_def example_records_def
        example_defs run_simps replicate_numeral to_string_Suc_Suc_0
      cong: let_weak_cong bind_cong_weak)

lemma wrap_run:
  "generate_modules wrap_app [] ''ru1.data.xml'' scenario_session
     = Inr (wrap_modules, wrap_records)"
  by (simp add: wrap_app_def wrap_nd_def scenario_app_def scenario_session_def wrap_modules_def
        wrap_records_def example_defs run_simps replicate_numeral port_65536
      cong: let_weak_cong bind_cong_weak)

lemma example_descriptors:
  "link_handler example_app = Some example_lh"
  "data_reader example_app = Some example_rdr"
  "dlh_queue_descriptor example_app example_lh = Some example_qd"
  "dlh_network_descriptor example_app example_lh = Some example_nd"
  "processed_groups example_session (contains example_app) = [[43], [], [5]]"
  "tp_handler example_app = Some \<lparr>tp_UID = ''def-tp-handler''\<rparr>"
  "tp_src_id example_app = 7"
  "app_UID example_app = ''ru2''"
  by (simp_all add: example_app_def example_session_def example_lh_def
        dlh_queue_descriptor_def dlh_network_descriptor_def)

lemma wrap_descriptors:
  "link_handler wrap_app = Some example_lh"
  "dlh_network_descriptor wrap_app example_lh = Some wrap_nd"
  "processed_groups scenario_session (contains wrap_app) = [[1, 3]]"
  by (simp_all add: wrap_app_def scenario_app_def scenario_session_def example_lh_def
        dlh_network_descriptor_def)

lemma renamed_run:
  "generate_modules renamed_app other_store ''ru1.data.xml'' renamed_session
     = Inr (scenario_modules, other_store @ scenario_records)"
  by (simp add: renamed_app_def renamed_session_def other_store_def scenario_app_def
        scenario_modules_def scenario_records_def example_defs run_simps replicate_numeral
      cong: let_weak_cong bind_cong_weak)

section \<open>Properties of generate\_modules\<close>

subsection \<open>The data reader of a group\<close>

text \<open>
  C1, as the code has it. A call that returns has created, besides the three objects of
  the TP handler when there is one and the three objects of every enabled stream, one
  object for every processed group and no other. For the group of index \<open>k\<close> among
  the groups that are not disabled, the database holds exactly one object under
  \<^verbatim>\<open>datareader-<application>-k\<close>; the call created it, in the class of the reader
  template; its relationship \<^verbatim>\<open>outputs\<close> is the list of the identifiers
  \<^verbatim>\<open>inputToDLH-<id>\<close> of the enabled streams of the group, in their order (empty
  when there is none), each held by exactly one object, a \<^verbatim>\<open>Queue\<close> the call
  created; its \<^verbatim>\<open>configuration\<close> is the reader template; and its relationship
  \<^verbatim>\<open>inputs\<close> is not set.
\<close>

theorem reader_outputs_are_group_queues:
  assumes "generate_modules app confdb dbfile session = Inr (mods, confdb')"
  shows "\<exists>rdrConf. data_reader app = Some rdrConf \<and>
     length (created confdb confdb') =
       (case tp_handler app of None \<Rightarrow> 0 | Some _ \<Rightarrow> 3)
       + 3 * length (concat (processed_groups session (contains app)))
       + length (processed_groups session (contains app)) \<and>
     (\<forall>k < length (processed_groups session (contains app)).
        \<exists>r. filter (\<lambda>obj. UID obj = ''datareader-'' @ app_UID app @ ''-'' @ to_string k) confdb' = [r] \<and>
            r \<in> set (created confdb confdb') \<and>
            class_name r = dr_template_for rdrConf \<and>
            relations r ''outputs'' =
              Some (map (\<lambda>s. ''inputToDLH-'' @ to_string (unat s))
                      (processed_groups session (contains app) ! k)) \<and>
            relations r ''configuration'' = Some [dr_UID rdrConf] \<and>
            relations r ''inputs'' = None \<and>
            (\<forall>s \<in> set (processed_groups session (contains app) ! k).
               \<exists>q. filter (\<lambda>obj. UID obj = ''inputToDLH-'' @ to_string (unat s)) confdb' = [q] \<and>
                   q \<in> set (created confdb confdb') \<and> class_name q = ''Queue''))"
proof -
  let ?gs = "processed_groups session (contains app)"
  let ?new = "run_records app dbfile session"
  from generate_modules_Inr [OF assms] obtain lh rdrConf
    where rdr: "data_reader app = Some rdrConf"
      and db: "confdb' = confdb @ ?new"
      and fresh: "fresh_for confdb ?new"
      and new: "?new = tp_records app dbfile (tp_queue_descriptor app lh) (tp_network_descriptor app lh)
                  @ group_records (run_env app dbfile session lh) (app_UID app) rdrConf 0 0 ?gs"
      and tp: "tp_handler app \<noteq> None \<longrightarrow>
                 tp_queue_descriptor app lh \<noteq> None \<and> tp_network_descriptor app lh \<noteq> None \<and>
                 tp_src_id app \<noteq> 0"
      and descs: "concat ?gs \<noteq> [] \<longrightarrow>
                 dlh_queue_descriptor app lh \<noteq> None \<and> dlh_network_descriptor app lh \<noteq> None"
    by blast
  let ?env = "run_env app dbfile session lh"
  let ?grs = "group_records ?env (app_UID app) rdrConf 0 0 ?gs"
  have len: "length (created confdb confdb') =
       (case tp_handler app of None \<Rightarrow> 0 | Some _ \<Rightarrow> 3) + 3 * length (concat ?gs) + length ?gs"
    using tp descs by (simp add: db new length_tp_records length_group_records)
  have grs: "set ?grs \<subseteq> set ?new"
    by (subst new) simp
  have readers: "\<exists>r. filter (\<lambda>obj. UID obj = ''datareader-'' @ app_UID app @ ''-'' @ to_string k) confdb' = [r] \<and>
            r \<in> set (created confdb confdb') \<and>
            class_name r = dr_template_for rdrConf \<and>
            relations r ''outputs'' = Some (map (\<lambda>s. ''inputToDLH-'' @ to_string (unat s)) (?gs ! k)) \<and>
            relations r ''configuration'' = Some [dr_UID rdrConf] \<and>
            relations r ''inputs'' = None \<and>
            (\<forall>s \<in> set (?gs ! k).
               \<exists>q. filter (\<lambda>obj. UID obj = ''inputToDLH-'' @ to_string (unat s)) confdb' = [q] \<and>
                   q \<in> set (created confdb confdb') \<and> class_name q = ''Queue'')"
    if k: "k < length ?gs" for k
  proof -
    let ?r = "reader_record ?env (app_UID app) rdrConf k (?gs ! k)"
    from reader_record_nth [OF k, of ?env "app_UID app" rdrConf 0 0] grs
    have r_in: "?r \<in> set ?new" by auto
    from filter_UID_fresh [OF fresh r_in]
    have r_only: "filter (\<lambda>obj. UID obj = ''datareader-'' @ app_UID app @ ''-'' @ to_string k) confdb' = [?r]"
      by (simp add: db)
    have queues: "\<exists>q. filter (\<lambda>obj. UID obj = ''inputToDLH-'' @ to_string (unat s)) confdb' = [q] \<and>
                   q \<in> set (created confdb confdb') \<and> class_name q = ''Queue''"
      if s: "s \<in> set (?gs ! k)" for s
    proof -
      from k have ids: "?gs ! k \<in> set ?gs" by simp
      with s have "s \<in> set (concat ?gs)" by auto
      then have "concat ?gs \<noteq> []" by (metis empty_iff empty_set)
      with descs obtain qd nd
        where qd: "dlhInputQDesc ?env = Some qd" and nd: "dlhNetDesc ?env = Some nd"
        by auto
      from s obtain j where j: "j < length (?gs ! k)" "?gs ! k ! j = s"
        by (auto simp: in_set_conv_nth)
      from stream_records_subset [OF ids, of ?env "app_UID app" rdrConf 0 0] obtain off'
        where sub: "set (stream_records ?env off' (?gs ! k)) \<subseteq> set ?grs"
        by blast
      from stream_records_nth [OF qd nd j(1), of off'] j(2) sub grs
      have q_in: "queue_record ?env qd s \<in> set ?new" by auto
      from filter_UID_fresh [OF fresh q_in]
      have "filter (\<lambda>obj. UID obj = ''inputToDLH-'' @ to_string (unat s)) confdb' = [queue_record ?env qd s]"
        by (simp add: db)
      moreover have "class_name (queue_record ?env qd s) = ''Queue''"
        by (simp add: queue_record_def)
      ultimately show ?thesis using q_in by (auto simp: db)
    qed
    have "class_name ?r = dr_template_for rdrConf"
        "relations ?r ''outputs'' = Some (map (\<lambda>s. ''inputToDLH-'' @ to_string (unat s)) (?gs ! k))"
        "relations ?r ''configuration'' = Some [dr_UID rdrConf]"
        "relations ?r ''inputs'' = None"
      by (simp_all add: reader_record_def)
    with r_only r_in queues show ?thesis
      by (intro exI [of _ ?r]) (simp add: db)
  qed
  from rdr len readers show ?thesis by blast
qed

text \<open>
  C1 on the second example application: three processed groups, with the enabled
  streams 43, none and 5.
\<close>

theorem reader_outputs_are_group_queues_witness:
  "generate_modules example_app [] ''ru2.data.xml'' example_session
     = Inr (example_modules, example_records) \<and>
   processed_groups example_session (contains example_app) = [[43], [], [5]] \<and>
   length (created [] example_records) = 3 + 3 * 2 + 3 \<and>
   filter (\<lambda>obj. UID obj = ''datareader-ru2-0'') example_records = [example_records ! 6] \<and>
   relations (example_records ! 6) ''outputs'' = Some [''inputToDLH-43''] \<and>
   relations (example_records ! 6) ''inputs'' = None \<and>
   filter (\<lambda>obj. UID obj = ''datareader-ru2-1'') example_records = [example_records ! 7] \<and>
   relations (example_records ! 7) ''outputs'' = Some [] \<and>
   filter (\<lambda>obj. UID obj = ''datareader-ru2-2'') example_records = [example_records ! 11] \<and>
   relations (example_records ! 11) ''outputs'' = Some [''inputToDLH-5''] \<and>
   filter (\<lambda>obj. UID obj = ''inputToDLH-5'') example_records = [example_records ! 9] \<and>
   class_name (example_records ! 9) = ''Queue''"
  using reader_outputs_are_group_queues [OF example_run]
  by (simp add: example_run example_descriptors created_def example_records_def)

text \<open>
  C1 as it is stated fails on the scenario of the specification: the call returns, the
  data reader of the group is the fourth object it creates and the queue of the enabled
  stream the second, and the relationship \<^verbatim>\<open>inputs\<close> of the reader is not set. The
  queue is in its \<^verbatim>\<open>outputs\<close> (line 216).
\<close>

theorem reader_inputs_unset_counterexample:
  "generate_modules scenario_app [] ''ru1.data.xml'' scenario_session
     = Inr (scenario_modules, scenario_records) \<and>
   UID (scenario_records ! 1) = ''inputToDLH-1'' \<and>
   class_name (scenario_records ! 1) = ''Queue'' \<and>
   UID (scenario_records ! 3) = ''datareader-ru1-0'' \<and>
   class_name (scenario_records ! 3) = ''DataReader'' \<and>
   relations (scenario_records ! 3) ''inputs'' = None \<and>
   relations (scenario_records ! 3) ''inputs'' \<noteq> Some [''inputToDLH-1''] \<and>
   relations (scenario_records ! 3) ''outputs'' = Some [''inputToDLH-1'']"
  by (simp add: scenario_run scenario_records_def)

subsection \<open>The templates that must be there\<close>

text \<open>
  C2 fails on the code for the handler template. The reader template is checked (line
  135) and its absence throws \<^verbatim>\<open>BadConf\<close>; the handler template is not:
  line 64 calls \<^verbatim>\<open>dlhConf->get_template_for()\<close> on the pointer as
  \<^verbatim>\<open>get_link_handler()\<close> returned it, which is undefined behaviour when it is null,
  and no error is raised. The two runs below are the scenario application without its
  handler configuration and without its reader configuration.
\<close>

theorem handler_template_absent_is_not_checked:
  "generate_modules no_handler_app [] ''ru1.data.xml'' scenario_session
     = Inl (UndefinedBehaviour ''dlhConf is a null pointer'', []) \<and>
   generate_modules no_reader_app [] ''ru1.data.xml'' scenario_session
     = Inl (BadConf ''No DataReader configuration given'', [])"
  by (simp add: no_handler_app_def no_reader_app_def scenario_app_def scenario_session_def
        example_defs run_simps replicate_numeral cong: let_weak_cong bind_cong_weak)

subsection \<open>The descriptors of the data link handlers\<close>

text \<open>
  C3 fails on the code. The descriptors of the TP handler are compared with
  \<^verbatim>\<open>nullptr\<close> and their absence throws \<^verbatim>\<open>BadConf\<close> (lines 98 to 103);
  those of the data link handlers are not: line 176 reads through
  \<^verbatim>\<open>dlhInputQDesc\<close> and line 182 through \<^verbatim>\<open>dlhNetDesc\<close> whatever they hold.
  With no queue rule, the scenario application reaches line 176 after it has created the
  object of the handler and the empty object of the queue; with no network rule it
  reaches line 182 after it has filled in the queue. Both are undefined behaviour, and no
  error is raised.
\<close>

theorem dlh_descriptor_absent_is_not_checked:
  "generate_modules no_queue_rule_app [] ''ru1.data.xml'' scenario_session
     = Inl (UndefinedBehaviour ''dlhInputQDesc is a null pointer'',
            [\<lparr>contained_in = ''ru1.data.xml'', class_name = ''DLH'', UID = ''DLH-1'',
              attributes = [''source_id'' \<mapsto> U32Val 1],
              relations = [''handler_configuration'' \<mapsto> [''def-link-handler'']]\<rparr>,
             \<lparr>contained_in = ''ru1.data.xml'', class_name = ''Queue'', UID = ''inputToDLH-1'',
              attributes = Map.empty, relations = Map.empty\<rparr>]) \<and>
   generate_modules no_network_rule_app [] ''ru1.data.xml'' scenario_session
     = Inl (UndefinedBehaviour ''dlhNetDesc is a null pointer'',
            [\<lparr>contained_in = ''ru1.data.xml'', class_name = ''DLH'', UID = ''DLH-1'',
              attributes = [''source_id'' \<mapsto> U32Val 1],
              relations = [''handler_configuration'' \<mapsto> [''def-link-handler'']]\<rparr>,
             \<lparr>contained_in = ''ru1.data.xml'', class_name = ''Queue'', UID = ''inputToDLH-1'',
              attributes = [''data_type'' \<mapsto> StrVal ''WIBFrame'',
                            ''queue_type'' \<mapsto> StrVal ''kFollySPSCQueue'',
                            ''capacity'' \<mapsto> U32Val 100],
              relations = Map.empty\<rparr>])"
  by (simp add: no_queue_rule_app_def no_network_rule_app_def scenario_app_def
        scenario_session_def example_defs run_simps replicate_numeral
      cong: let_weak_cong bind_cong_weak)

subsection \<open>The TP handler\<close>

text \<open>
  C4. With a TP handler configuration: without a network descriptor, without a queue
  descriptor and with the source id 0 the code throws \<^verbatim>\<open>BadConf\<close> with three
  different messages, each time with the database as it was; otherwise, when the
  database holds no object under one of the three identifiers, it creates the queue
  \<^verbatim>\<open>inputToTPH-<id>\<close>, the network connection \<^verbatim>\<open>ReqToTPH-<id>\<close> and the TP
  handler \<^verbatim>\<open>tphandler-<id>\<close>, whose inputs are that queue and that connection and
  whose handler configuration is the configuration, and returns the TP handler. Without a
  TP handler configuration nothing is created, nothing is returned and no error is
  raised. The statement is about lines 92 to 131, for any two descriptors;
  \<open>generate_modules\<close> runs them on the descriptors the rules select, and stops with
  their error when they raise one (\<open>generate_modules_tp_error\<close>).
\<close>

theorem tp_handler_checks_and_records:
  "(tp_handler app = Some conf \<and> tpNetDesc = None \<longrightarrow>
      create_tp_handler app dbfile tpInputQDesc tpNetDesc confdb
        = Inl (BadConf ''No tpHandler network descriptor given'', confdb)) \<and>
   (tp_handler app = Some conf \<and> tpNetDesc = Some nd \<and> tpInputQDesc = None \<longrightarrow>
      create_tp_handler app dbfile tpInputQDesc tpNetDesc confdb
        = Inl (BadConf ''No tpHandler input queue descriptor given'', confdb)) \<and>
   (tp_handler app = Some conf \<and> tpNetDesc = Some nd \<and> tpInputQDesc = Some qd \<and>
    tp_src_id app = 0 \<longrightarrow>
      create_tp_handler app dbfile tpInputQDesc tpNetDesc confdb
        = Inl (BadConf ''No TPHandler src_id given'', confdb)) \<and>
   (tp_handler app = Some conf \<and> tpNetDesc = Some nd \<and> tpInputQDesc = Some qd \<and>
    tp_src_id app \<noteq> 0 \<and>
    ''inputToTPH-'' @ to_string (unat (tp_src_id app)) \<notin> uids confdb \<and>
    ''ReqToTPH-'' @ to_string (unat (tp_src_id app)) \<notin> uids confdb \<and>
    ''tphandler-'' @ to_string (unat (tp_src_id app)) \<notin> uids confdb \<longrightarrow>
      create_tp_handler app dbfile tpInputQDesc tpNetDesc confdb
        = Inr ([TPHandler (''tphandler-'' @ to_string (unat (tp_src_id app)))],
               Some (''inputToTPH-'' @ to_string (unat (tp_src_id app))),
               confdb @
               [\<lparr>contained_in = dbfile, class_name = ''Queue'',
                 UID = ''inputToTPH-'' @ to_string (unat (tp_src_id app)),
                 attributes = [''data_type'' \<mapsto> StrVal (qd_data_type qd),
                               ''queue_type'' \<mapsto> StrVal (qd_queue_type qd),
                               ''capacity'' \<mapsto> U32Val (qd_capacity qd)],
                 relations = Map.empty\<rparr>,
                \<lparr>contained_in = dbfile, class_name = ''NetworkConnection'',
                 UID = ''ReqToTPH-'' @ to_string (unat (tp_src_id app)),
                 attributes = [''data_type'' \<mapsto> StrVal (nd_data_type nd),
                               ''connection_type'' \<mapsto> StrVal (nd_connection_type nd),
                               ''uri'' \<mapsto> StrVal (nd_uri nd),
                               ''port'' \<mapsto> U16Val (nd_port nd)],
                 relations = Map.empty\<rparr>,
                \<lparr>contained_in = dbfile, class_name = ''TPHandler'',
                 UID = ''tphandler-'' @ to_string (unat (tp_src_id app)),
                 attributes = [''source_id'' \<mapsto> U32Val (tp_src_id app)],
                 relations = [''handler_configuration'' \<mapsto> [tp_UID conf],
                              ''inputs'' \<mapsto> [''inputToTPH-'' @ to_string (unat (tp_src_id app)),
                                             ''ReqToTPH-'' @ to_string (unat (tp_src_id app))]]\<rparr>])) \<and>
   (tp_handler app = None \<longrightarrow>
      create_tp_handler app dbfile tpInputQDesc tpNetDesc confdb = Inr ([], None, confdb))"
proof -
  have absent: "tp_handler app = None \<Longrightarrow>
      create_tp_handler app dbfile tpInputQDesc tpNetDesc confdb = Inr ([], None, confdb)"
    by (simp add: create_tp_handler_def)
  have no_net: "tp_handler app = Some conf \<Longrightarrow> tpNetDesc = None \<Longrightarrow>
      create_tp_handler app dbfile tpInputQDesc tpNetDesc confdb
        = Inl (BadConf ''No tpHandler network descriptor given'', confdb)"
    by (simp add: create_tp_handler_def)
  have no_queue: "tp_handler app = Some conf \<Longrightarrow> tpNetDesc = Some nd \<Longrightarrow> tpInputQDesc = None \<Longrightarrow>
      create_tp_handler app dbfile tpInputQDesc tpNetDesc confdb
        = Inl (BadConf ''No tpHandler input queue descriptor given'', confdb)"
    by (simp add: create_tp_handler_def)
  have no_id: "tp_handler app = Some conf \<Longrightarrow> tpNetDesc = Some nd \<Longrightarrow> tpInputQDesc = Some qd \<Longrightarrow>
      tp_src_id app = 0 \<Longrightarrow>
      create_tp_handler app dbfile tpInputQDesc tpNetDesc confdb
        = Inl (BadConf ''No TPHandler src_id given'', confdb)"
    by (simp add: create_tp_handler_def)
  show ?thesis
    using absent no_net no_queue no_id
      create_tp_handler_present [of app conf tpInputQDesc qd tpNetDesc nd confdb dbfile]
    by (simp add: tp_queue_record_def tp_network_record_def tp_handler_record_def)
qed

text \<open>
  C4 on the second example application and its descriptors, on the empty database: with
  both descriptors, without the network descriptor, without the queue descriptor, with
  the source id 0, and without the TP handler configuration.
\<close>

theorem tp_handler_checks_and_records_witness:
  "create_tp_handler example_app ''ru2.data.xml'' (Some example_tp_qd) (Some example_tp_nd) []
     = Inr ([TPHandler ''tphandler-7''], Some ''inputToTPH-7'', take 3 example_records) \<and>
   create_tp_handler example_app ''ru2.data.xml'' (Some example_tp_qd) None []
     = Inl (BadConf ''No tpHandler network descriptor given'', []) \<and>
   create_tp_handler example_app ''ru2.data.xml'' None (Some example_tp_nd) []
     = Inl (BadConf ''No tpHandler input queue descriptor given'', []) \<and>
   create_tp_handler (example_app\<lparr>tp_src_id := 0\<rparr>) ''ru2.data.xml''
       (Some example_tp_qd) (Some example_tp_nd) []
     = Inl (BadConf ''No TPHandler src_id given'', []) \<and>
   create_tp_handler scenario_app ''ru1.data.xml'' (Some example_tp_qd) (Some example_tp_nd) []
     = Inr ([], None, [])"
  using
    tp_handler_checks_and_records [of example_app "\<lparr>tp_UID = ''def-tp-handler''\<rparr>"
      "Some example_tp_nd" "''ru2.data.xml''" "Some example_tp_qd" "[]" example_tp_nd example_tp_qd]
    tp_handler_checks_and_records [of example_app "\<lparr>tp_UID = ''def-tp-handler''\<rparr>"
      None "''ru2.data.xml''" "Some example_tp_qd" "[]" example_tp_nd example_tp_qd]
    tp_handler_checks_and_records [of example_app "\<lparr>tp_UID = ''def-tp-handler''\<rparr>"
      "Some example_tp_nd" "''ru2.data.xml''" None "[]" example_tp_nd example_tp_qd]
    tp_handler_checks_and_records [of "example_app\<lparr>tp_src_id := 0\<rparr>" "\<lparr>tp_UID = ''def-tp-handler''\<rparr>"
      "Some example_tp_nd" "''ru2.data.xml''" "Some example_tp_qd" "[]" example_tp_nd example_tp_qd]
    tp_handler_checks_and_records [of scenario_app "\<lparr>tp_UID = ''def-tp-handler''\<rparr>"
      "Some example_tp_nd" "''ru1.data.xml''" "Some example_tp_qd" "[]" example_tp_nd example_tp_qd]
  by (simp add: example_app_def scenario_app_def example_records_def example_tp_qd_def
        example_tp_nd_def digit_char_def)

subsection \<open>The rules that are selected\<close>

text \<open>
  C5, as the code has it. For the queue rules and for the network rules alike, the
  descriptor selected for the data link handlers is that of the last rule whose class is
  the literal \<^verbatim>\<open>DLH\<close> or the class name of the handler configuration, and the
  descriptor selected for the TP handler is that of the last rule whose class is the
  literal \<^verbatim>\<open>TPHandler\<close> and is not the class name of the handler configuration: a
  rule that matches the data link handlers is not looked at for the TP handler. A role
  that no rule matches has no descriptor. The two loops are total functions: several
  rules for one role raise no error.
\<close>

theorem rules_last_match_wins:
  "process_queue_rules handler_class qrules (None, None) =
     (last_matching_descriptor qr_descriptor
        (\<lambda>r. destination_class r = ''DLH'' \<or> destination_class r = handler_class) qrules,
      last_matching_descriptor qr_descriptor
        (\<lambda>r. destination_class r = ''TPHandler'' \<and> destination_class r \<noteq> handler_class) qrules) \<and>
   process_network_rules handler_class nrules (None, None) =
     (last_matching_descriptor nr_descriptor
        (\<lambda>r. endpoint_class r = ''DLH'' \<or> endpoint_class r = handler_class) nrules,
      last_matching_descriptor nr_descriptor
        (\<lambda>r. endpoint_class r = ''TPHandler'' \<and> endpoint_class r \<noteq> handler_class) nrules)"
  by (simp add: process_queue_rules_acc process_network_rules_acc last_matching_descriptor_def)

text \<open>
  C5 as it is stated fails when the class name of the handler configuration is itself
  \<^verbatim>\<open>TPHandler\<close>: the one rule of the list has the class \<^verbatim>\<open>TPHandler\<close>, so it
  is the last rule that matches the TP handler, and the loop leaves the descriptor of the
  TP handler unset and gives the rule to the data link handlers.
\<close>

theorem tp_rule_taken_by_link_handler_counterexample:
  "last_matching_descriptor qr_descriptor (\<lambda>r. destination_class r = ''TPHandler'')
     [\<lparr>destination_class = ''TPHandler'', qr_descriptor = Some example_tp_qd\<rparr>]
     = Some example_tp_qd \<and>
   process_queue_rules ''TPHandler''
     [\<lparr>destination_class = ''TPHandler'', qr_descriptor = Some example_tp_qd\<rparr>] (None, None)
     = (Some example_tp_qd, None)"
  by (simp add: last_matching_descriptor_def)

subsection \<open>The ports of the streams\<close>

text \<open>
  C6, as the code has it. In a call that returns, with \<open>nd\<close> the network descriptor
  selected for the data link handlers, take the enabled streams of the processed groups in
  the order of the call, groups one after the other, and let \<open>k\<close> count them from 0:
  disabled streams and disabled groups are not in the list and take no number. The
  database holds exactly one object under the address template followed by the source id
  of the stream \<open>k\<close>; it is a \<^verbatim>\<open>NetworkConnection\<close> the call created, and its
  \<^verbatim>\<open>port\<close> is 0 when the base port is 0 and otherwise the 16-bit sum of the base
  port and \<open>k\<close>: the base port plus \<open>k\<close> modulo \<open>2^16\<close>, which is the base
  port plus \<open>k\<close> as long as that is below \<open>2^16\<close>.
\<close>

theorem stream_ports_follow_the_offset:
  assumes "generate_modules app confdb dbfile session = Inr (mods, confdb')"
    and "link_handler app = Some lh"
    and "dlh_network_descriptor app lh = Some nd"
  shows "\<forall>k < length (concat (processed_groups session (contains app))).
           \<exists>n p. filter (\<lambda>obj. UID obj = nd_uid_base nd @ hex_setw8 (concat (processed_groups session (contains app)) ! k)) confdb' = [n] \<and>
                 n \<in> set (created confdb confdb') \<and>
                 class_name n = ''NetworkConnection'' \<and>
                 attributes n ''port'' = Some (U16Val p) \<and>
                 p = (if nd_port nd = 0 then 0 else nd_port nd + word_of_nat k) \<and>
                 unat p = (if nd_port nd = 0 then 0 else (unat (nd_port nd) + k) mod 2 ^ 16)"
proof (intro allI impI)
  fix k
  assume k: "k < length (concat (processed_groups session (contains app)))"
  let ?n = "network_record (run_env app dbfile session lh) nd k
              (concat (processed_groups session (contains app)) ! k)"
  have "attributes ?n ''port'' = Some (U16Val (assign_port (nd_port nd) k))"
      "class_name ?n = ''NetworkConnection''"
    by (simp_all add: network_record_def)
  moreover have "assign_port (nd_port nd) k
                   = (if nd_port nd = 0 then 0 else nd_port nd + word_of_nat k)"
    by (simp add: assign_port_add)
  moreover have "unat (assign_port (nd_port nd) k)
                   = (if nd_port nd = 0 then 0 else (unat (nd_port nd) + k) mod 2 ^ 16)"
    by (simp add: unat_assign_port)
  ultimately show "\<exists>n p. filter (\<lambda>obj. UID obj = nd_uid_base nd @ hex_setw8 (concat (processed_groups session (contains app)) ! k)) confdb' = [n] \<and>
                 n \<in> set (created confdb confdb') \<and>
                 class_name n = ''NetworkConnection'' \<and>
                 attributes n ''port'' = Some (U16Val p) \<and>
                 p = (if nd_port nd = 0 then 0 else nd_port nd + word_of_nat k) \<and>
                 unat p = (if nd_port nd = 0 then 0 else (unat (nd_port nd) + k) mod 2 ^ 16)"
    using network_record_of_kth_stream [OF assms k] by blast
qed

text \<open>
  C6 on the second example application: the streams 43 and 5 are in two groups, with a
  disabled stream, a disabled group and a group with no enabled stream between them, and
  get the ports 14000 and 14001.
\<close>

theorem stream_ports_follow_the_offset_witness:
  "generate_modules example_app [] ''ru2.data.xml'' example_session
     = Inr (example_modules, example_records) \<and>
   link_handler example_app = Some example_lh \<and>
   dlh_network_descriptor example_app example_lh = Some example_nd \<and>
   concat (processed_groups example_session (contains example_app)) = [43, 5] \<and>
   filter (\<lambda>obj. UID obj = ''tp_conn_0000002b'') example_records = [example_records ! 5] \<and>
   attributes (example_records ! 5) ''port'' = Some (U16Val 14000) \<and>
   filter (\<lambda>obj. UID obj = ''tp_conn_00000005'') example_records = [example_records ! 10] \<and>
   attributes (example_records ! 10) ''port'' = Some (U16Val 14001)"
  using stream_ports_follow_the_offset [OF example_run example_descriptors(1) example_descriptors(4)]
  by (simp add: example_run example_descriptors example_records_def)

text \<open>
  C6 as it is stated fails on the third example application: the base port is 65535, not
  0, and the connection of the second stream gets the port 0, which is neither the base
  port plus 1 nor above the port 65535 of the first.
\<close>

theorem port_after_65535_counterexample:
  "generate_modules wrap_app [] ''ru1.data.xml'' scenario_session
     = Inr (wrap_modules, wrap_records) \<and>
   nd_port wrap_nd = 65535 \<and>
   UID (wrap_records ! 2) = ''tp_conn_00000001'' \<and>
   attributes (wrap_records ! 2) ''port'' = Some (U16Val 65535) \<and>
   UID (wrap_records ! 5) = ''tp_conn_00000003'' \<and>
   attributes (wrap_records ! 5) ''port'' = Some (U16Val 0)"
  by (simp add: wrap_run wrap_records_def wrap_nd_def)

subsection \<open>The identifiers\<close>

text \<open>
  C7. In a call that returns, with the handler template \<open>lh\<close>, the reader template
  \<open>rdrConf\<close> and, when a stream is enabled, the selected network descriptor \<open>nd\<close>,
  the classes and the identifiers of the objects the call has created are, in the order
  of their creation: the three objects of the TP handler when there is one; then, for
  every group that is not disabled, numbered from 0 in the order of the application (a
  group with no enabled stream has a number, a disabled group has none), for every
  enabled stream \<open>s\<close> of the group the handler \<^verbatim>\<open>DLH-<s>\<close> in the class of the
  handler template, the \<^verbatim>\<open>Queue\<close> \<^verbatim>\<open>inputToDLH-<s>\<close> and the
  \<^verbatim>\<open>NetworkConnection\<close> named by the address template followed by the 8 digits of
  \<open>s\<close>, and last the reader \<^verbatim>\<open>datareader-<application>-<number>\<close> in the class of
  the reader template. The 8 digits are lower-case hexadecimal digits whose value is
  \<open>s\<close>, and the decimal digits written for a number have that number as their value.
\<close>

theorem identifiers_of_created_records:
  assumes "generate_modules app confdb dbfile session = Inr (mods, confdb')"
    and "link_handler app = Some lh"
    and "data_reader app = Some rdrConf"
    and "dlh_network_descriptor app lh = Some nd \<or>
         concat (processed_groups session (contains app)) = []"
  shows "map (\<lambda>obj. (class_name obj, UID obj)) (created confdb confdb') =
           (case tp_handler app of
              None \<Rightarrow> []
            | Some _ \<Rightarrow> [(''Queue'', ''inputToTPH-'' @ to_string (unat (tp_src_id app))),
                         (''NetworkConnection'', ''ReqToTPH-'' @ to_string (unat (tp_src_id app))),
                         (''TPHandler'', ''tphandler-'' @ to_string (unat (tp_src_id app)))])
           @ concat (map (\<lambda>(groupIndex, ids).
                            concat (map (\<lambda>s. [(lh_template_for lh, ''DLH-'' @ to_string (unat s)),
                                               (''Queue'', ''inputToDLH-'' @ to_string (unat s)),
                                               (''NetworkConnection'', nd_uid_base nd @ hex_setw8 s)]) ids)
                            @ [(dr_template_for rdrConf,
                                ''datareader-'' @ app_UID app @ ''-'' @ to_string groupIndex)])
                       (enumerate 0 (processed_groups session (contains app)))) \<and>
         (\<forall>s. length (hex_setw8 s) = 8 \<and> set (hex_setw8 s) \<subseteq> set ''0123456789abcdef'' \<and>
              digits_value 16 (hex_setw8 s) = unat s) \<and>
         (\<forall>n. set (to_string n) \<subseteq> set ''0123456789'' \<and> digits_value 10 (to_string n) = n)"
proof -
  let ?gs = "processed_groups session (contains app)"
  let ?env = "run_env app dbfile session lh"
  from generate_modules_Inr [OF assms(1)] assms(2,3)
  have db: "confdb' = confdb @ run_records app dbfile session"
    and new: "run_records app dbfile session =
                tp_records app dbfile (tp_queue_descriptor app lh) (tp_network_descriptor app lh)
                @ group_records ?env (app_UID app) rdrConf 0 0 ?gs"
    and tp: "tp_handler app \<noteq> None \<longrightarrow>
               tp_queue_descriptor app lh \<noteq> None \<and> tp_network_descriptor app lh \<noteq> None"
    and descs: "concat ?gs \<noteq> [] \<longrightarrow> dlh_queue_descriptor app lh \<noteq> None"
    by auto
  have "dlhNetDesc ?env = Some nd \<or> concat ?gs = []"
      "concat ?gs \<noteq> [] \<longrightarrow> dlhInputQDesc ?env \<noteq> None"
    using assms(4) descs by simp_all
  from class_uid_group_records [OF this, of "app_UID app" rdrConf 0 0]
    class_uid_tp_records [OF tp, of dbfile]
  have "map (\<lambda>obj. (class_name obj, UID obj)) (created confdb confdb') =
           (case tp_handler app of
              None \<Rightarrow> []
            | Some _ \<Rightarrow> [(''Queue'', ''inputToTPH-'' @ to_string (unat (tp_src_id app))),
                         (''NetworkConnection'', ''ReqToTPH-'' @ to_string (unat (tp_src_id app))),
                         (''TPHandler'', ''tphandler-'' @ to_string (unat (tp_src_id app)))])
           @ concat (map (\<lambda>(groupIndex, ids).
                            concat (map (\<lambda>s. [(lh_template_for lh, ''DLH-'' @ to_string (unat s)),
                                               (''Queue'', ''inputToDLH-'' @ to_string (unat s)),
                                               (''NetworkConnection'', nd_uid_base nd @ hex_setw8 s)]) ids)
                            @ [(dr_template_for rdrConf,
                                ''datareader-'' @ app_UID app @ ''-'' @ to_string groupIndex)])
                       (enumerate 0 ?gs))"
    by (simp add: db new)
  with hex_setw8_format to_string_digits to_string_value show ?thesis by blast
qed

text \<open>
  C7 on the second example application: the streams 43 and 5 in the groups 0 and 2, the
  group 1 with no enabled stream, and no number for the disabled group G2.
\<close>

theorem identifiers_of_created_records_witness:
  "generate_modules example_app [] ''ru2.data.xml'' example_session
     = Inr (example_modules, example_records) \<and>
   (link_handler example_app = Some example_lh \<and>
    data_reader example_app = Some example_rdr \<and>
    dlh_network_descriptor example_app example_lh = Some example_nd \<and>
    processed_groups example_session (contains example_app) = [[43], [], [5]] \<and>
    map (\<lambda>obj. (class_name obj, UID obj)) (created [] example_records) =
      [(''Queue'', ''inputToTPH-7''), (''NetworkConnection'', ''ReqToTPH-7''),
       (''TPHandler'', ''tphandler-7''),
       (''DLH'', ''DLH-43''), (''Queue'', ''inputToDLH-43''),
       (''NetworkConnection'', ''tp_conn_0000002b''),
       (''DataReader'', ''datareader-ru2-0''),
       (''DataReader'', ''datareader-ru2-1''),
       (''DLH'', ''DLH-5''), (''Queue'', ''inputToDLH-5''),
       (''NetworkConnection'', ''tp_conn_00000005''),
       (''DataReader'', ''datareader-ru2-2'')] \<and>
    hex_setw8 43 = ''0000002b'' \<and> digits_value 16 ''0000002b'' = 43)"
proof -
  have nd: "dlh_network_descriptor example_app example_lh = Some example_nd \<or>
            concat (processed_groups example_session (contains example_app)) = []"
    by (simp add: example_descriptors)
  from identifiers_of_created_records [OF example_run example_descriptors(1) example_descriptors(2) nd]
  have "link_handler example_app = Some example_lh \<and>
    data_reader example_app = Some example_rdr \<and>
    dlh_network_descriptor example_app example_lh = Some example_nd \<and>
    processed_groups example_session (contains example_app) = [[43], [], [5]] \<and>
    map (\<lambda>obj. (class_name obj, UID obj)) (created [] example_records) =
      [(''Queue'', ''inputToTPH-7''), (''NetworkConnection'', ''ReqToTPH-7''),
       (''TPHandler'', ''tphandler-7''),
       (''DLH'', ''DLH-43''), (''Queue'', ''inputToDLH-43''),
       (''NetworkConnection'', ''tp_conn_0000002b''),
       (''DataReader'', ''datareader-ru2-0''),
       (''DataReader'', ''datareader-ru2-1''),
       (''DLH'', ''DLH-5''), (''Queue'', ''inputToDLH-5''),
       (''NetworkConnection'', ''tp_conn_00000005''),
       (''DataReader'', ''datareader-ru2-2'')] \<and>
    hex_setw8 43 = ''0000002b'' \<and> digits_value 16 ''0000002b'' = 43"
    by (simp add: example_app_def example_session_def dlh_network_descriptor_def
          created_def example_records_def example_defs hex_setw8_def digit_char_def
          replicate_numeral digits_value_def digit_value_def to_string_Suc_Suc_0)
  with example_run show ?thesis ..
qed

subsection \<open>The modules that are returned\<close>

text \<open>
  C8, as the code has it. A call that returns returns the TP handler when there is a TP
  handler configuration, and then, for every processed group in the order of the
  application, the handlers of its enabled streams followed by its reader. With \<open>N\<close>
  enabled streams in \<open>G\<close> processed groups these are \<open>N\<close> handlers, \<open>G\<close>
  readers and one TP handler or none: \<open>N + G\<close> modules, and one more, not three
  more, with a TP handler. The queue and the network connection of the TP handler are
  created in the database and are not returned.
\<close>

theorem returned_modules:
  assumes "generate_modules app confdb dbfile session = Inr (mods, confdb')"
  shows "mods =
           (case tp_handler app of
              None \<Rightarrow> []
            | Some _ \<Rightarrow> [TPHandler (''tphandler-'' @ to_string (unat (tp_src_id app)))])
           @ concat (map (\<lambda>(groupIndex, ids).
                            map (\<lambda>s. DLH (''DLH-'' @ to_string (unat s))) ids
                            @ [DataReader (''datareader-'' @ app_UID app @ ''-'' @ to_string groupIndex)])
                       (enumerate 0 (processed_groups session (contains app)))) \<and>
         length (filter is_DLH mods) = length (concat (processed_groups session (contains app))) \<and>
         length (filter is_DataReader mods) = length (processed_groups session (contains app)) \<and>
         length (filter is_TPHandler mods) = (case tp_handler app of None \<Rightarrow> 0 | Some _ \<Rightarrow> 1) \<and>
         length mods =
           length (concat (processed_groups session (contains app)))
           + length (processed_groups session (contains app))
           + (case tp_handler app of None \<Rightarrow> 0 | Some _ \<Rightarrow> 1)"
proof -
  from generate_modules_Inr [OF assms] have "mods = run_modules app session" by blast
  then have mods: "mods = tp_modules app
      @ group_modules (app_UID app) 0 (processed_groups session (contains app))"
    by (simp add: run_modules_def)
  show ?thesis
    unfolding mods
    using group_modules_counts [of "app_UID app" 0 "processed_groups session (contains app)"]
    by (simp add: group_modules_enumerate tp_modules_def split: option.splits)
qed

text \<open>C8 on the second example application: 2 handlers, 3 readers and the TP handler.\<close>

theorem returned_modules_witness:
  "generate_modules example_app [] ''ru2.data.xml'' example_session
     = Inr (example_modules, example_records) \<and>
   processed_groups example_session (contains example_app) = [[43], [], [5]] \<and>
   example_modules =
     [TPHandler ''tphandler-7'', DLH ''DLH-43'', DataReader ''datareader-ru2-0'',
      DataReader ''datareader-ru2-1'', DLH ''DLH-5'', DataReader ''datareader-ru2-2''] \<and>
   length (filter is_DLH example_modules) = 2 \<and>
   length (filter is_DataReader example_modules) = 3 \<and>
   length (filter is_TPHandler example_modules) = 1 \<and>
   length example_modules = 2 + 3 + 1"
  using returned_modules [OF example_run]
  by (simp add: example_run example_descriptors example_modules_def digit_char_def
        to_string_Suc_Suc_0)

text \<open>
  C8 as it is stated fails on the second example application: it has a TP handler
  configuration, 2 enabled streams and 3 processed groups, and the call returns 6
  modules, not \<open>2 + 3 + 3\<close>.
\<close>

theorem returned_modules_count_counterexample:
  "generate_modules example_app [] ''ru2.data.xml'' example_session
     = Inr (example_modules, example_records) \<and>
   tp_handler example_app \<noteq> None \<and>
   length (concat (processed_groups example_session (contains example_app))) = 2 \<and>
   length (processed_groups example_session (contains example_app)) = 3 \<and>
   length example_modules = 6 \<and>
   length example_modules \<noteq> 2 + 3 + 3"
  by (simp add: example_run example_descriptors example_modules_def)

subsection \<open>Two calls\<close>

text \<open>
  C9, as the code has it. The modules a call returns and the objects it creates,
  identifiers and ports included, are functions of \<open>run_inputs\<close>: the file, the
  identifier of the application, its templates and the source id of the TP handler, the
  descriptors that the rules select (the address template and the base port are in
  them), and the source ids of the enabled streams of the processed groups. Two calls
  that return and agree on these return the same modules and create the same objects,
  whatever the databases they start from, the identifiers of the groups and the streams,
  the disabled items and the rules that are not selected; two calls on the same
  arguments are such calls. The identifiers a call that returns has created differ from
  one another and from those the database held.
\<close>

theorem records_are_functions_of_run_inputs:
  assumes "generate_modules app confdb dbfile session = Inr (mods, confdb')"
    and "generate_modules app2 confdb2 dbfile2 session2 = Inr (mods2, confdb2')"
    and "run_inputs app dbfile session = run_inputs app2 dbfile2 session2"
  shows "mods = mods2 \<and>
         created confdb confdb' = created confdb2 confdb2' \<and>
         distinct (map UID (created confdb confdb')) \<and>
         uids confdb \<inter> uids (created confdb confdb') = {}"
proof -
  from generate_modules_Inr [OF assms(1)]
  have r1: "mods = run_modules app session" "confdb' = confdb @ run_records app dbfile session"
      "fresh_for confdb (run_records app dbfile session)"
    by auto
  from generate_modules_Inr [OF assms(2)]
  have r2: "mods2 = run_modules app2 session2" "confdb2' = confdb2 @ run_records app2 dbfile2 session2"
    by auto
  from run_records_cong [OF assms(3)] r1 r2 show ?thesis
    by (simp add: fresh_for_def)
qed

text \<open>
  C9 on the scenario of the specification and on the same scenario with other
  identifiers for the group and the stream, a disabled group, a rule that is not
  selected, and a database that is not empty.
\<close>

theorem records_are_functions_of_run_inputs_witness:
  "generate_modules scenario_app [] ''ru1.data.xml'' scenario_session
     = Inr (scenario_modules, scenario_records) \<and>
   generate_modules renamed_app other_store ''ru1.data.xml'' renamed_session
     = Inr (scenario_modules, other_store @ scenario_records) \<and>
   run_inputs scenario_app ''ru1.data.xml'' scenario_session
     = run_inputs renamed_app ''ru1.data.xml'' renamed_session \<and>
   created [] scenario_records = created other_store (other_store @ scenario_records) \<and>
   distinct (map UID (created [] scenario_records)) \<and>
   uids [] \<inter> uids (created [] scenario_records) = {}"
proof -
  have same: "run_inputs scenario_app ''ru1.data.xml'' scenario_session
                = run_inputs renamed_app ''ru1.data.xml'' renamed_session"
    by (simp add: run_inputs_def scenario_app_def renamed_app_def scenario_session_def
          renamed_session_def example_lh_def)
  from records_are_functions_of_run_inputs [OF scenario_run renamed_run same] same
  show ?thesis
    by (simp add: scenario_run renamed_run created_def)
qed

text \<open>
  C9 as it is stated fails. The scenario of the specification runs on the empty database;
  the same call on the database the first has filled stops at its first creation, since
  the identifier \<^verbatim>\<open>DLH-1\<close> is taken; and on the empty database, the application
  whose two enabled streams have the source id 1 stops in the same way at its second
  stream, with the three objects of the first left in the database. And the identifiers
  are not functions of the source ids and of the identity of the application and the
  groups alone: with another address template in the network rule, the same scenario
  creates a network connection with another identifier.
\<close>

theorem identifiers_collide_counterexample:
  "generate_modules scenario_app [] ''ru1.data.xml'' scenario_session
     = Inr (scenario_modules, scenario_records) \<and>
   generate_modules scenario_app scenario_records ''ru1.data.xml'' scenario_session
     = Inl (StoreError ''DLH-1'', scenario_records) \<and>
   generate_modules same_id_app [] ''ru1.data.xml'' scenario_session
     = Inl (StoreError ''DLH-1'', take 3 scenario_records) \<and>
   identifiers_after (generate_modules scenario_app [] ''ru1.data.xml'' scenario_session)
     = [''DLH-1'', ''inputToDLH-1'', ''tp_conn_00000001'', ''datareader-ru1-0''] \<and>
   identifiers_after (generate_modules other_template_app [] ''ru1.data.xml'' scenario_session)
     = [''DLH-1'', ''inputToDLH-1'', ''dlh_req_00000001'', ''datareader-ru1-0'']"
proof -
  have again: "generate_modules scenario_app scenario_records ''ru1.data.xml'' scenario_session
     = Inl (StoreError ''DLH-1'', scenario_records)"
    by (simp add: scenario_app_def scenario_session_def scenario_records_def
          example_defs run_simps replicate_numeral cong: let_weak_cong bind_cong_weak)
  have same_id: "generate_modules same_id_app [] ''ru1.data.xml'' scenario_session
     = Inl (StoreError ''DLH-1'', take 3 scenario_records)"
    by (simp add: same_id_app_def scenario_app_def scenario_session_def scenario_records_def
          example_defs run_simps replicate_numeral cong: let_weak_cong bind_cong_weak)
  have other: "identifiers_after (generate_modules other_template_app [] ''ru1.data.xml'' scenario_session)
     = [''DLH-1'', ''inputToDLH-1'', ''dlh_req_00000001'', ''datareader-ru1-0'']"
    by (simp add: other_template_app_def scenario_app_def scenario_session_def
          identifiers_after_def example_defs run_simps replicate_numeral
        cong: let_weak_cong bind_cong_weak)
  from again same_id other show ?thesis
    by (simp add: scenario_run identifiers_after_def scenario_records_def)
qed

subsection \<open>The width of a port\<close>

text \<open>
  C10. With a base port that is not 0, the port of the stream \<open>k\<close> of a call that
  returns (counted as for C6) is the value line 190 computes, whose 16 bits are the base
  port plus \<open>k\<close> modulo \<open>2^16\<close>. The ports repeat after \<open>2^16\<close> streams, and
  the stream number \<open>2^16\<close> minus the base port gets the port 0.
\<close>

theorem stream_port_is_16_bit:
  assumes "generate_modules app confdb dbfile session = Inr (mods, confdb')"
    and "link_handler app = Some lh"
    and "dlh_network_descriptor app lh = Some nd"
    and "nd_port nd \<noteq> 0"
  shows "(\<forall>k < length (concat (processed_groups session (contains app))).
           \<exists>n p. filter (\<lambda>obj. UID obj = nd_uid_base nd @ hex_setw8 (concat (processed_groups session (contains app)) ! k)) confdb' = [n] \<and>
                 attributes n ''port'' = Some (U16Val p) \<and>
                 p = assign_port (nd_port nd) k \<and>
                 unat p = (unat (nd_port nd) + k) mod 2 ^ 16) \<and>
         (\<forall>k. assign_port (nd_port nd) (k + 2 ^ 16) = assign_port (nd_port nd) k) \<and>
         assign_port (nd_port nd) (2 ^ 16 - unat (nd_port nd)) = 0"
proof -
  have "\<exists>n p. filter (\<lambda>obj. UID obj = nd_uid_base nd @ hex_setw8 (concat (processed_groups session (contains app)) ! k)) confdb' = [n] \<and>
                 attributes n ''port'' = Some (U16Val p) \<and>
                 p = assign_port (nd_port nd) k \<and>
                 unat p = (unat (nd_port nd) + k) mod 2 ^ 16"
    if k: "k < length (concat (processed_groups session (contains app)))" for k
  proof -
    let ?n = "network_record (run_env app dbfile session lh) nd k
                (concat (processed_groups session (contains app)) ! k)"
    have "attributes ?n ''port'' = Some (U16Val (assign_port (nd_port nd) k))"
      by (simp add: network_record_def)
    with network_record_of_kth_stream [OF assms(1-3) k] unat_assign_port [OF assms(4), of k]
    show ?thesis by blast
  qed
  with assign_port_period [of "nd_port nd"] assign_port_reaches_zero [OF assms(4)]
  show ?thesis by blast
qed

text \<open>
  C10 on the third example application: the second stream gets the port
  \<open>(65535 + 1) mod 2^16\<close>, which is 0.
\<close>

theorem stream_port_is_16_bit_witness:
  "generate_modules wrap_app [] ''ru1.data.xml'' scenario_session
     = Inr (wrap_modules, wrap_records) \<and>
   link_handler wrap_app = Some example_lh \<and>
   dlh_network_descriptor wrap_app example_lh = Some wrap_nd \<and>
   nd_port wrap_nd \<noteq> 0 \<and>
   concat (processed_groups scenario_session (contains wrap_app)) = [1, 3] \<and>
   filter (\<lambda>obj. UID obj = ''tp_conn_00000003'') wrap_records = [wrap_records ! 5] \<and>
   attributes (wrap_records ! 5) ''port'' = Some (U16Val (assign_port 65535 1)) \<and>
   unat (assign_port 65535 1) = (65535 + 1) mod 2 ^ 16 \<and>
   assign_port 65535 1 = 0"
proof -
  have nz: "nd_port wrap_nd \<noteq> 0"
    by (simp add: wrap_nd_def)
  from stream_port_is_16_bit [OF wrap_run wrap_descriptors(1) wrap_descriptors(2) nz]
  show ?thesis
    by (simp add: wrap_run wrap_descriptors wrap_records_def wrap_nd_def assign_port_def)
qed

end
